theory Spec2Isabelle
  imports Complex_Main "HOL-Library.Log_Nat"
begin

section \<open>Python values and errors\<close>

text \<open>
  The exporter is Python. Exceptions are values: a function that can raise returns
  \<open>error + 'a\<close> with \<open>Inl\<close> the exception.
\<close>

datatype error =
    NameError string
  | NotImplementedError string
  | KeyError string
  | TypeError
  | ValueError
  | IndexError
  | OverflowError

text \<open>
  The Python values that occur as line styles, dictionary keys and style dictionary
  entries. Lists are unhashable, tuples are hashable when their items are.
\<close>

datatype pyval =
    PyNone
  | PyStr string
  | PyNum real
  | PyTuple "pyval list"
  | PyList "pyval list"

fun hashable :: "pyval \<Rightarrow> bool" where
  "hashable PyNone = True"
| "hashable (PyStr s) = True"
| "hashable (PyNum x) = True"
| "hashable (PyTuple vs) = list_all hashable vs"
| "hashable (PyList vs) = False"

text \<open>\<open>seq[i]\<close>: an index from \<open>-len(seq)\<close> up to \<open>-1\<close> counts from the end.\<close>

definition py_index :: "'a list \<Rightarrow> int \<Rightarrow> error + 'a" where
  "py_index xs i =
     (if 0 \<le> i \<and> i < int (length xs) then Inr (xs ! nat i)
      else if i < 0 \<and> - int (length xs) \<le> i then Inr (xs ! nat (int (length xs) + i))
      else Inl IndexError)"

fun getitem :: "pyval \<Rightarrow> int \<Rightarrow> error + pyval" where
  "getitem (PyStr s) i = (case py_index s i of Inl e \<Rightarrow> Inl e | Inr c \<Rightarrow> Inr (PyStr [c]))"
| "getitem (PyTuple vs) i = py_index vs i"
| "getitem (PyList vs) i = py_index vs i"
| "getitem PyNone i = Inl TypeError"
| "getitem (PyNum x) i = Inl TypeError"

text \<open>\<open>d.get(key, None)\<close>: hashing an unhashable key raises \<open>TypeError\<close>.\<close>

definition dict_get :: "(pyval \<rightharpoonup> 'v) \<Rightarrow> pyval \<Rightarrow> error + 'v option" where
  "dict_get d key = (if hashable key then Inr (d key) else Inl TypeError)"

text \<open>\<open>sep.join(parts)\<close>\<close>

fun py_join :: "string \<Rightarrow> string list \<Rightarrow> string" where
  "py_join sep [] = []"
| "py_join sep [x] = x"
| "py_join sep (x # y # ys) = x @ sep @ py_join sep (y # ys)"

subsection \<open>Floats\<close>

text \<open>
  A Python float is an IEEE 754 binary64 number. A finite float is modelled as the real
  number it denotes, and an operation on floats as the exact operation on reals followed
  by rounding to the nearest float, ties to the even significand (\<open>to_double\<close>). The
  floats of one binade \<open>2^e \<le> |x| < 2^(e+1)\<close> are the multiples of \<open>2^(e-52)\<close>; below
  \<open>2^(-1022)\<close> they are the multiples of \<open>2^(-1074)\<close>. A result of magnitude \<open>2^1024\<close>
  or more stands for an infinity, on which \<open>int\<close> raises \<open>OverflowError\<close>. Infinities and
  NaN as arguments are not modelled.
\<close>

definition round_even :: "real \<Rightarrow> int" where
  "round_even x =
     (let f = \<lfloor>x\<rfloor>; d = x - of_int f
      in if d < 1 / 2 then f else if 1 / 2 < d then f + 1 else if even f then f else f + 1)"

definition binade :: "real \<Rightarrow> int" where
  "binade x = max (bitlen \<lfloor>\<bar>x\<bar> * 2 ^ 1074\<rfloor> - 1075) (- 1022)"

definition to_double :: "real \<Rightarrow> real" where
  "to_double x =
     of_int (round_even (x / 2 powi (binade x - 52))) * 2 powi (binade x - 52)"

definition float_mul :: "real \<Rightarrow> real \<Rightarrow> real" where
  "float_mul a b = to_double (a * b)"

definition float_div :: "real \<Rightarrow> real \<Rightarrow> real" where
  "float_div a b = to_double (a / b)"

text \<open>\<open>int(x)\<close> on a float truncates towards zero.\<close>

definition py_int :: "real \<Rightarrow> error + int" where
  "py_int x =
     (if 2 ^ 1024 \<le> \<bar>x\<bar> then Inl OverflowError
      else Inr (if 0 \<le> x then \<lfloor>x\<rfloor> else \<lceil>x\<rceil>))"

text \<open>A generator or list comprehension whose element expression can raise.\<close>

fun map_err :: "('a \<Rightarrow> error + 'b) \<Rightarrow> 'a list \<Rightarrow> error + 'b list" where
  "map_err f [] = Inr []"
| "map_err f (x # xs) =
     (case f x of
        Inl e \<Rightarrow> Inl e
      | Inr y \<Rightarrow> (case map_err f xs of Inl e \<Rightarrow> Inl e | Inr ys \<Rightarrow> Inr (y # ys)))"

text \<open>
  \<open>'{0:02X}'.format(n)\<close>: upper-case hexadecimal, padded with zeros to width 2, the
  sign counted in the width.
\<close>

definition hex_char :: "nat \<Rightarrow> char" where
  "hex_char d = ''0123456789ABCDEF'' ! d"

fun hex_digits :: "nat \<Rightarrow> string" where
  "hex_digits n = (if n < 16 then [hex_char n] else hex_digits (n div 16) @ [hex_char (n mod 16)])"

declare hex_digits.simps [simp del]

definition fmt_02X :: "int \<Rightarrow> string" where
  "fmt_02X n =
     (let ds = hex_digits (nat \<bar>n\<bar>)
      in if n < 0 then CHR ''-'' # ds
         else if length ds < 2 then CHR ''0'' # ds
         else ds)"

section \<open>utils.py\<close>

subsection \<open>color_to_hex\<close>

text \<open>
  A matplotlib colour argument: \<open>None\<close>, a string (a name, a hex code, \<open>'none'\<close>) or a
  tuple of floats. \<open>colorConverter.to_rgb\<close> belongs to matplotlib: it is the parameter
  \<open>to_rgb\<close>, which returns three floats or raises. In \<open>int(255 * c)\<close> the integer 255
  becomes the float 255.0 and the product is a float product.
\<close>

datatype color = ColNone | ColStr string | ColTuple "real list"

type_synonym rgb = "real \<times> real \<times> real"

definition color_to_hex :: "(color \<Rightarrow> error + rgb) \<Rightarrow> color \<Rightarrow> error + string" where
  "color_to_hex to_rgb color =
     (if color \<in> set [ColStr ''none'', ColStr ''None'', ColNone] then Inr ''none''
      else case to_rgb color of
             Inl e \<Rightarrow> Inl e
           | Inr (r, g, b) \<Rightarrow>
               (case map_err (\<lambda>c. py_int (float_mul 255 c)) [r, g, b] of
                  Inl e \<Rightarrow> Inl e
                | Inr ns \<Rightarrow> Inr (''#'' @ concat (map fmt_02X ns))))"

text \<open>
  What matplotlib's converter does on a string \<open>#RRGGBB\<close> (its \<open>hex2color\<close>): each pair
  of hex digits is read as an integer and divided by the float 255.0. It is used to state what is
  assumed of \<open>to_rgb\<close> on such strings, and as the converter of concrete examples.
  \<open>hex_val\<close> is the place of a digit in the digit string.
\<close>

definition hex_val :: "char \<Rightarrow> nat" where
  "hex_val c = length (takeWhile (\<lambda>d. d \<noteq> c) ''0123456789ABCDEF'')"

definition is_hex_char :: "char \<Rightarrow> bool" where
  "is_hex_char c = (c \<in> set ''0123456789ABCDEF'')"

fun is_hex6 :: "string \<Rightarrow> bool" where
  "is_hex6 [h, r1, r2, g1, g2, b1, b2] =
     (h = CHR ''#'' \<and> is_hex_char r1 \<and> is_hex_char r2 \<and> is_hex_char g1 \<and> is_hex_char g2
      \<and> is_hex_char b1 \<and> is_hex_char b2)"
| "is_hex6 s = False"

fun hex2color :: "string \<Rightarrow> rgb" where
  "hex2color [h, r1, r2, g1, g2, b1, b2] =
     (float_div (real (16 * hex_val r1 + hex_val r2)) 255,
      float_div (real (16 * hex_val g1 + hex_val g2)) 255,
      float_div (real (16 * hex_val b1 + hex_val b2)) 255)"
| "hex2color s = (0, 0, 0)"

definition hex_to_rgb :: "color \<Rightarrow> error + rgb" where
  "hex_to_rgb c = (case c of ColStr s \<Rightarrow> if is_hex6 s then Inr (hex2color s) else Inl ValueError
                   | _ \<Rightarrow> Inl ValueError)"

subsection \<open>many_to_one and LINESTYLES\<close>

text \<open>
  A dictionary literal is the list of its items; building a dictionary from a sequence
  of pairs lets a later pair overwrite an earlier one with the same key. The keys of
  the literal of \<open>LINESTYLES\<close> are pairwise distinct, so the order in which Python
  walks it does not show.
\<close>

definition many_to_one :: "('k list \<times> 'v) list \<Rightarrow> ('k \<rightharpoonup> 'v)" where
  "many_to_one input_dict =
     foldl (\<lambda>d (key, val). d(key \<mapsto> val)) Map.empty
       (concat (map (\<lambda>(keys, val). map (\<lambda>key. (key, val)) keys) input_dict))"

definition LINESTYLES :: "pyval \<rightharpoonup> string" where
  "LINESTYLES = many_to_one
     [([PyStr ''solid'', PyStr ''-'', PyTuple [PyNone, PyNone]], ''10,0''),
      ([PyStr ''dashed'', PyStr ''--''], ''6,6''),
      ([PyStr ''dotted'', PyStr '':''], ''2,2''),
      ([PyStr ''dashdot'', PyStr ''-.''], ''4,4,2,4''),
      ([PyStr '''', PyStr '' '', PyStr ''None'', PyStr ''none''], ''none'')]"

subsection \<open>get_dasharray\<close>

text \<open>
  The source object: \<open>dashSeq\<close> is the entry \<open>_dashSeq\<close> of \<open>obj.__dict__\<close>, \<open>None\<close> when
  the entry is absent or is Python's \<open>None\<close>; \<open>get_linestyle\<close> is what the method
  returns. \<open>str\<close> on the numbers of a dash sequence is Python's and is the parameter
  \<open>str\<close>.

  utils.py imports itertools, io, base64, numpy and matplotlib names, and never
  \<open>warnings\<close>: evaluating \<open>warnings.warn\<close> in the fallback branch raises \<open>NameError\<close>
  before the message is formatted and before \<open>dasharray\<close> is assigned.
\<close>

record 'n artist =
  dashSeq :: "'n list option"
  get_linestyle :: pyval

definition get_dasharray :: "('n \<Rightarrow> string) \<Rightarrow> 'n artist \<Rightarrow> int option \<Rightarrow> error + string" where
  "get_dasharray str obj i =
     (case dashSeq obj of
        Some seq \<Rightarrow> Inr (py_join '','' (map str seq))
      | None \<Rightarrow>
          (case (case i of None \<Rightarrow> Inr (get_linestyle obj)
                         | Some k \<Rightarrow> getitem (get_linestyle obj) k) of
             Inl e \<Rightarrow> Inl e
           | Inr ls \<Rightarrow>
               (case dict_get LINESTYLES ls of
                  Inl e \<Rightarrow> Inl e
                | Inr (Some dasharray) \<Rightarrow> Inr dasharray
                | Inr None \<Rightarrow> Inl (NameError ''warnings''))))"

text \<open>\<open>str\<close> on a Python int, for concrete examples.\<close>

definition digit_char :: "nat \<Rightarrow> char" where
  "digit_char d = ''0123456789'' ! d"

fun dec_digits :: "nat \<Rightarrow> string" where
  "dec_digits n = (if n < 10 then [digit_char n] else dec_digits (n div 10) @ [digit_char (n mod 10)])"

declare dec_digits.simps [simp del]

definition str_int :: "int \<Rightarrow> string" where
  "str_int n = (if n < 0 then CHR ''-'' # dec_digits (nat (- n)) else dec_digits (nat n))"

subsection \<open>PATH_DICT and SVG_path\<close>

text \<open>
  matplotlib's path codes. \<open>path.transformed\<close> and \<open>path.iter_segments\<close> belong to
  matplotlib and are parameters; a segment is a flat float array and a code.
\<close>

datatype path_code = STOP | MOVETO | LINETO | CURVE3 | CURVE4 | CLOSEPOLY

definition PATH_DICT :: "path_code \<rightharpoonup> string" where
  "PATH_DICT = [LINETO \<mapsto> ''L'', MOVETO \<mapsto> ''M'', CURVE3 \<mapsto> ''S'', CURVE4 \<mapsto> ''C'',
                CLOSEPOLY \<mapsto> ''Z'']"

type_synonym point = "real \<times> real"

type_synonym segment = "real list \<times> path_code"

text \<open>\<open>np.array(flat).reshape(-1, 2)\<close>: an odd number of entries raises \<open>ValueError\<close>.\<close>

fun reshape2 :: "real list \<Rightarrow> error + point list" where
  "reshape2 [] = Inr []"
| "reshape2 [x] = Inl ValueError"
| "reshape2 (x # y # zs) = (case reshape2 zs of Inl e \<Rightarrow> Inl e | Inr ps \<Rightarrow> Inr ((x, y) # ps))"

definition SVG_path ::
  "('path \<Rightarrow> 'tr \<Rightarrow> 'path) \<Rightarrow> ('path \<Rightarrow> bool \<Rightarrow> segment list) \<Rightarrow>
   'path \<Rightarrow> 'tr option \<Rightarrow> bool \<Rightarrow> error + (point list \<times> string list)" where
  "SVG_path transformed iter_segments path transform simplify =
     (let path = (case transform of None \<Rightarrow> path | Some t \<Rightarrow> transformed path t)
      in case map_err (\<lambda>(vertices, path_code).
                   case PATH_DICT path_code of
                     None \<Rightarrow> Inl (KeyError ''path_code'')
                   | Some c \<Rightarrow> Inr (if path_code \<noteq> CLOSEPOLY then vertices else [], c))
                (iter_segments path simplify) of
           Inl e \<Rightarrow> Inl e
         | Inr vc_tuples \<Rightarrow>
             if vc_tuples = [] then Inr ([], [])
             else (case reshape2 (concat (map fst vc_tuples)) of
                     Inl e \<Rightarrow> Inl e
                   | Inr vertices \<Rightarrow> Inr (vertices, map snd vc_tuples)))"

text \<open>
  The number of vertices each output command consumes, and matplotlib's table of the
  number of vertices a segment of each code carries (\<open>NUM_VERTICES\<close>; a \<open>CLOSEPOLY\<close>
  segment carries one vertex, which \<open>SVG_path\<close> drops).
\<close>

definition consumes :: "string \<Rightarrow> nat" where
  "consumes c =
     (if c = ''M'' \<or> c = ''L'' then 1 else if c = ''S'' then 2 else if c = ''C'' then 3 else 0)"

fun NUM_VERTICES :: "path_code \<Rightarrow> nat" where
  "NUM_VERTICES STOP = 1"
| "NUM_VERTICES MOVETO = 1"
| "NUM_VERTICES LINETO = 1"
| "NUM_VERTICES CURVE3 = 2"
| "NUM_VERTICES CURVE4 = 3"
| "NUM_VERTICES CLOSEPOLY = 1"

fun segment_ok :: "segment \<Rightarrow> bool" where
  "segment_ok (vertices, path_code) =
     (path_code \<noteq> STOP \<and> length vertices = 2 * NUM_VERTICES path_code)"

section \<open>renderers/base.py\<close>

subsection \<open>Zoom and grid queries\<close>

text \<open>
  An axes object as far as the three queries read it. \<open>gridOnMajor\<close> is the attribute
  \<open>_gridOnMajor\<close>; a list is true when it is not empty; an axes object is true and
  \<open>None\<close> is false. The same three functions stand in renderer.py.
\<close>

record 'g axis =
  gridOnMajor :: bool
  get_gridlines :: "'g list"

record 'g axes =
  get_navigate :: bool
  xaxis :: "'g axis"
  yaxis :: "'g axis"

definition ax_zoomable :: "'g axes option \<Rightarrow> bool" where
  "ax_zoomable ax = (case ax of None \<Rightarrow> False | Some a \<Rightarrow> get_navigate a)"

definition ax_has_xgrid :: "'g axes option \<Rightarrow> bool" where
  "ax_has_xgrid ax =
     (case ax of None \<Rightarrow> False
      | Some a \<Rightarrow> gridOnMajor (xaxis a) \<and> get_gridlines (yaxis a) \<noteq> [])"

definition ax_has_ygrid :: "'g axes option \<Rightarrow> bool" where
  "ax_has_ygrid ax =
     (case ax of None \<Rightarrow> False
      | Some a \<Rightarrow> gridOnMajor (yaxis a) \<and> get_gridlines (yaxis a) \<noteq> [])"

subsection \<open>The figure and axes scopes\<close>

text \<open>
  The renderer's attributes \<open>_current_fig\<close>, \<open>_fig_properties\<close>, \<open>_current_ax\<close> and
  \<open>_ax_properties\<close>. An attribute may be absent (\<open>hasattr\<close> is false), hold \<open>None\<close>, or
  hold an object. The hooks \<open>open_figure\<close>, \<open>close_figure\<close>, \<open>open_axes\<close> and
  \<open>close_axes\<close> of the base class have the body \<open>pass\<close>; the model records every call of
  a hook, and every warning, in \<open>trace\<close>.
\<close>

datatype 'a slot = NoAttr | IsNone | Holds 'a

type_synonym props = "string \<rightharpoonup> pyval"

datatype ('fig, 'ax) event =
    Warn string
  | OpenFigure 'fig props
  | CloseFigure 'fig
  | OpenAxes 'ax props
  | CloseAxes 'ax

record ('fig, 'ax) renderer =
  current_fig :: "'fig slot"
  fig_properties :: "props option"
  current_ax :: "'ax slot"
  ax_properties :: "props option"
  trace :: "('fig, 'ax) event list"

text \<open>\<open>hasattr(self, name) and self.name is not None\<close>\<close>

fun is_set :: "'a slot \<Rightarrow> bool" where
  "is_set (Holds x) = True"
| "is_set IsNone = False"
| "is_set NoAttr = False"

text \<open>
  Nested work takes the renderer and returns it with \<open>None\<close> when it returns and
  \<open>Some e\<close> when it raises \<open>e\<close>; what it did to the renderer before raising stays.
\<close>

type_synonym ('fig, 'ax) work =
  "('fig, 'ax) renderer \<Rightarrow> error option \<times> ('fig, 'ax) renderer"

text \<open>
  \<open>draw_figure\<close> is a generator function under \<open>@contextmanager\<close>. Entering the
  \<open>with\<close> statement runs it up to \<open>yield\<close> (\<open>draw_figure_enter\<close>). When the body of the
  \<open>with\<close> statement returns, the generator is resumed and runs the statements after
  \<open>yield\<close> (\<open>draw_figure_exit\<close>). When the body raises, the exception is thrown into the
  generator at \<open>yield\<close>; the generator has no \<open>try\<close> around \<open>yield\<close>, so the exception
  leaves it at once, the statements after \<open>yield\<close> do not run, and the exception
  propagates out of the \<open>with\<close> statement. \<open>draw_figure fig properties body\<close> is
  \<open>with self.draw_figure(fig, properties): body\<close>.
\<close>

definition draw_figure_enter ::
  "'fig \<Rightarrow> props \<Rightarrow> ('fig, 'ax) renderer \<Rightarrow> ('fig, 'ax) renderer" where
  "draw_figure_enter fig properties self =
     (let self = (if is_set (current_fig self)
                  then self\<lparr>trace := trace self @ [Warn ''figure embedded in figure: something is wrong'']\<rparr>
                  else self);
          self = self\<lparr>current_fig := Holds fig\<rparr>;
          self = self\<lparr>fig_properties := Some properties\<rparr>
      in self\<lparr>trace := trace self @ [OpenFigure fig properties]\<rparr>)"

definition draw_figure_exit :: "'fig \<Rightarrow> ('fig, 'ax) renderer \<Rightarrow> ('fig, 'ax) renderer" where
  "draw_figure_exit fig self =
     (let self = self\<lparr>trace := trace self @ [CloseFigure fig]\<rparr>;
          self = self\<lparr>current_fig := IsNone\<rparr>
      in self\<lparr>fig_properties := Some Map.empty\<rparr>)"

definition draw_figure :: "'fig \<Rightarrow> props \<Rightarrow> ('fig, 'ax) work \<Rightarrow> ('fig, 'ax) work" where
  "draw_figure fig properties body self =
     (case body (draw_figure_enter fig properties self) of
        (Some e, self) \<Rightarrow> (Some e, self)
      | (None, self) \<Rightarrow> (None, draw_figure_exit fig self))"

definition draw_axes_enter ::
  "'ax \<Rightarrow> props \<Rightarrow> ('fig, 'ax) renderer \<Rightarrow> ('fig, 'ax) renderer" where
  "draw_axes_enter ax properties self =
     (let self = (if is_set (current_ax self)
                  then self\<lparr>trace := trace self @ [Warn ''axes embedded in axes: something is wrong'']\<rparr>
                  else self);
          self = self\<lparr>current_ax := Holds ax\<rparr>;
          self = self\<lparr>ax_properties := Some properties\<rparr>
      in self\<lparr>trace := trace self @ [OpenAxes ax properties]\<rparr>)"

definition draw_axes_exit :: "'ax \<Rightarrow> ('fig, 'ax) renderer \<Rightarrow> ('fig, 'ax) renderer" where
  "draw_axes_exit ax self =
     (let self = self\<lparr>trace := trace self @ [CloseAxes ax]\<rparr>;
          self = self\<lparr>current_ax := IsNone\<rparr>
      in self\<lparr>ax_properties := Some Map.empty\<rparr>)"

definition draw_axes :: "'ax \<Rightarrow> props \<Rightarrow> ('fig, 'ax) work \<Rightarrow> ('fig, 'ax) work" where
  "draw_axes ax properties body self =
     (case body (draw_axes_enter ax properties self) of
        (Some e, self) \<Rightarrow> (Some e, self)
      | (None, self) \<Rightarrow> (None, draw_axes_exit ax self))"

text \<open>A renderer fresh from construction: the class has no \<open>__init__\<close>, no attribute is set.\<close>

definition new_renderer :: "('fig, 'ax) renderer" where
  "new_renderer = \<lparr>current_fig = NoAttr, fig_properties = None, current_ax = NoAttr,
                     ax_properties = None, trace = []\<rparr>"

subsection \<open>draw_path and draw_line\<close>

text \<open>
  The arguments of one \<open>draw_path\<close> call. \<open>draw_path\<close> is the method a concrete renderer
  overrides: the default methods take it as the parameter \<open>dp\<close>, acting on the
  renderer's state \<open>'s\<close>. In the base class it raises \<open>NotImplementedError\<close>;
  \<open>record_call\<close> is the \<open>draw_path\<close> of a renderer that keeps the list of the calls
  it received.
\<close>

record 'obj draw_path_call =
  data :: "point list"
  coordinates :: string
  pathcodes :: "string list"
  style :: props
  offset :: "point option"
  offset_coordinates :: string
  mplobj :: "'obj option"

type_synonym ('obj, 's) draw_path = "'obj draw_path_call \<Rightarrow> 's \<Rightarrow> error option \<times> 's"

definition draw_path :: "('obj, 's) draw_path" where
  "draw_path call self = (Some (NotImplementedError []), self)"

definition record_call :: "('obj, 'obj draw_path_call list) draw_path" where
  "record_call call calls = (None, calls @ [call])"

text \<open>\<open>n * xs\<close> on a list: no copy when \<open>n\<close> is zero or negative.\<close>

definition py_repeat :: "int \<Rightarrow> 'a list \<Rightarrow> 'a list" where
  "py_repeat n xs = concat (replicate (nat n) xs)"

text \<open>
  \<open>dict(facecolor='none', **style)\<close> raises \<open>TypeError\<close> when \<open>style\<close> has the key
  \<open>facecolor\<close> (the keyword is given twice); \<open>pop\<close> raises \<open>KeyError\<close> on a missing key.
\<close>

definition draw_line ::
  "('obj, 's) draw_path \<Rightarrow> point list \<Rightarrow> string \<Rightarrow> props \<Rightarrow> 'obj option \<Rightarrow> 's \<Rightarrow> error option \<times> 's" where
  "draw_line dp data_arg coordinates_arg style_arg mplobj_arg self =
     (let pathcodes_v = [''M''] @ py_repeat (int (length data_arg) - 1) [''L'']
      in if style_arg ''facecolor'' \<noteq> None then (Some TypeError, self)
         else
           let pathstyle = style_arg(''facecolor'' \<mapsto> PyStr ''none'')
           in case pathstyle ''color'' of
                None \<Rightarrow> (Some (KeyError ''color''), self)
              | Some c \<Rightarrow>
                  let pathstyle = (pathstyle(''color'' := None))(''edgecolor'' \<mapsto> c)
                  in (case pathstyle ''linewidth'' of
                        None \<Rightarrow> (Some (KeyError ''linewidth''), self)
                      | Some w \<Rightarrow>
                          let pathstyle = (pathstyle(''linewidth'' := None))(''edgewidth'' \<mapsto> w)
                          in dp \<lparr>data = data_arg, coordinates = coordinates_arg,
                                 pathcodes = pathcodes_v, style = pathstyle, offset = None,
                                 offset_coordinates = ''data'', mplobj = mplobj_arg\<rparr> self))"

subsection \<open>draw_path_collection\<close>

text \<open>
  The style dictionary of a collection, with the keys the method reads. A transform is
  a 3x3 matrix. \<open>path_transforms\<close> is \<open>None\<close>, a Python list of transforms, or a numpy
  array of shape (k, 3, 3), given by its k transforms. \<open>not path_transforms\<close> is true on
  \<open>None\<close>, on an empty list and on an array with no element; on an array with more than
  one element, so on every array of one transform or more, it raises \<open>ValueError\<close> (the
  truth value of such an array is ambiguous).
\<close>

record styles =
  edgecolor :: "color list"
  facecolor :: "color list"
  linewidth :: "pyval list"
  alpha :: pyval
  zorder :: pyval

type_synonym mat = "real list list"

datatype transforms = NoTransforms | TransformList "mat list" | TransformArray "mat list"

fun items :: "transforms \<Rightarrow> mat list" where
  "items NoTransforms = []"
| "items (TransformList ts) = ts"
| "items (TransformArray ts) = ts"

fun py_not :: "transforms \<Rightarrow> error + bool" where
  "py_not NoTransforms = Inr True"
| "py_not (TransformList ts) = Inr (ts = [])"
| "py_not (TransformArray ts) = (if ts = [] then Inr True else Inl ValueError)"

definition eye3 :: mat where
  "eye3 = [[1, 0, 0], [0, 1, 0], [0, 0, 1]]"

text \<open>
  \<open>cycle n pending saved\<close> is the list of the first \<open>n\<close> items of \<open>itertools.cycle\<close>:
  the items of the iterable are handed out and saved, and when the iterable is
  exhausted the saved items are handed out again, for ever; the cycle of an empty
  iterable is exhausted at once. \<open>izip\<close> makes a tuple of the next item of each of its
  arguments and stops when one of them is exhausted, and \<open>islice(..., N)\<close> stops it
  after \<open>N\<close> tuples, so at most \<open>N\<close> items of each cycle are taken.
\<close>

fun cycle :: "nat \<Rightarrow> 'a list \<Rightarrow> 'a list \<Rightarrow> 'a list" where
  "cycle 0 pending saved = []"
| "cycle (Suc n) (x # pending) saved = x # cycle n pending saved"
| "cycle (Suc n) [] [] = []"
| "cycle (Suc n) [] (x # saved) = x # cycle n saved (x # saved)"

fun izip ::
  "'a list \<Rightarrow> 'b list \<Rightarrow> 'c list \<Rightarrow> 'd list \<Rightarrow> 'e list \<Rightarrow> 'f list \<Rightarrow>
   ('a \<times> 'b \<times> 'c \<times> 'd \<times> 'e \<times> 'f) list" where
  "izip (a # as) (b # bs) (c # cs) (d # ds) (e # es) (f # fs) =
     (a, b, c, d, e, f) # izip as bs cs ds es fs"
| "izip as bs cs ds es fs = []"

type_synonym path = "point list \<times> string list"

definition iter_path_collection ::
  "path list \<Rightarrow> transforms \<Rightarrow> point list \<Rightarrow> styles \<Rightarrow>
   error + (path \<times> mat \<times> point \<times> color \<times> pyval \<times> color) list" where
  "iter_path_collection paths path_transforms offsets styles_arg =
     (let N = max (length paths) (length offsets)
      in case py_not path_transforms of
           Inl e \<Rightarrow> Inl e
         | Inr no_transforms \<Rightarrow>
             let path_transforms_v = (if no_transforms then [eye3] else items path_transforms);
                 edgecolor_v = edgecolor styles_arg;
                 edgecolor_v = (if length edgecolor_v = 0 then [ColStr ''none'']
                                else edgecolor_v);
                 facecolor_v = facecolor styles_arg;
                 facecolor_v = (if length facecolor_v = 0 then [ColStr ''none'']
                                else facecolor_v)
             in Inr (izip (cycle N paths paths)
                       (cycle N path_transforms_v path_transforms_v)
                       (cycle N offsets offsets) (cycle N edgecolor_v edgecolor_v)
                       (cycle N (linewidth styles_arg) (linewidth styles_arg))
                       (cycle N facecolor_v facecolor_v)))"

text \<open>
  The \<open>for\<close> loop of \<open>draw_path_collection\<close>. \<open>Affine2D(m).transform(vertices)\<close> belongs
  to matplotlib and is the parameter \<open>affine\<close>. The loop assigns \<open>path_coordinates\<close>,
  so the variable is threaded through the iterations. \<open>_iter_path_collection\<close> is an
  ordinary function: what it raises, it raises before the first iteration.
\<close>

fun draw_elements ::
  "('obj, 's) draw_path \<Rightarrow> (color \<Rightarrow> error + rgb) \<Rightarrow> (mat \<Rightarrow> point list \<Rightarrow> point list) \<Rightarrow>
   (path \<times> mat \<times> point \<times> color \<times> pyval \<times> color) list \<Rightarrow>
   string \<Rightarrow> string \<Rightarrow> styles \<Rightarrow> 'obj option \<Rightarrow> 's \<Rightarrow> error option \<times> 's" where
  "draw_elements dp to_rgb affine [] path_coordinates offset_coordinates_arg styles_arg
     mplobj_arg self = (None, self)"
| "draw_elements dp to_rgb affine ((path, path_transform, offset_v, ec, lw, fc) # rest)
     path_coordinates offset_coordinates_arg styles_arg mplobj_arg self =
     (let (vertices, pathcodes_v) = path;
          vertices = affine path_transform vertices;
          path_coordinates = (if path_coordinates = ''figure'' then ''points''
                              else path_coordinates)
      in case color_to_hex to_rgb ec of
           Inl e \<Rightarrow> (Some e, self)
         | Inr ech \<Rightarrow>
             (case color_to_hex to_rgb fc of
                Inl e \<Rightarrow> (Some e, self)
              | Inr fch \<Rightarrow>
                  (case dp \<lparr>data = vertices, coordinates = path_coordinates,
                            pathcodes = pathcodes_v,
                            style = [''edgecolor'' \<mapsto> PyStr ech, ''facecolor'' \<mapsto> PyStr fch,
                                     ''edgewidth'' \<mapsto> lw, ''dasharray'' \<mapsto> PyStr ''10,0'',
                                     ''alpha'' \<mapsto> alpha styles_arg,
                                     ''zorder'' \<mapsto> zorder styles_arg],
                            offset = Some offset_v,
                            offset_coordinates = offset_coordinates_arg,
                            mplobj = mplobj_arg\<rparr> self of
                     (Some e, self) \<Rightarrow> (Some e, self)
                   | (None, self) \<Rightarrow>
                       draw_elements dp to_rgb affine rest path_coordinates
                         offset_coordinates_arg styles_arg mplobj_arg self)))"

definition draw_path_collection ::
  "('obj, 's) draw_path \<Rightarrow> (color \<Rightarrow> error + rgb) \<Rightarrow> (mat \<Rightarrow> point list \<Rightarrow> point list) \<Rightarrow>
   path list \<Rightarrow> string \<Rightarrow> transforms \<Rightarrow> point list \<Rightarrow> string \<Rightarrow> string \<Rightarrow>
   styles \<Rightarrow> 'obj option \<Rightarrow> 's \<Rightarrow> error option \<times> 's" where
  "draw_path_collection dp to_rgb affine paths path_coordinates path_transforms offsets
     offset_coordinates_arg offset_order styles_arg mplobj_arg self =
     (if offset_order = ''before''
      then (Some (NotImplementedError ''offset before transform''), self)
      else case iter_path_collection paths path_transforms offsets styles_arg of
             Inl e \<Rightarrow> (Some e, self)
           | Inr elements \<Rightarrow>
               draw_elements dp to_rgb affine elements path_coordinates
                 offset_coordinates_arg styles_arg mplobj_arg self)"

section \<open>Definitions used to state the properties\<close>

text \<open>
  What \<open>SVG_path\<close> makes of one segment that passes the lookup in \<open>PATH_DICT\<close>.
\<close>

definition encode_segment :: "segment \<Rightarrow> real list \<times> string" where
  "encode_segment seg =
     (if snd seg \<noteq> CLOSEPOLY then fst seg else [],
      case PATH_DICT (snd seg) of None \<Rightarrow> [] | Some c \<Rightarrow> c)"

text \<open>
  The broadcast as the specification words it: the element of a sequence at index
  \<open>i\<close> modulo the length of the sequence, an empty colour sequence read as
  \<open>['none']\<close>, and a missing or empty transform sequence read as the identity alone.
  \<open>has_truth_value\<close> holds of the transform arguments on which \<open>not path_transforms\<close>
  does not raise.
\<close>

definition cyclic :: "'a list \<Rightarrow> nat \<Rightarrow> 'a" where
  "cyclic xs i = xs ! (i mod length xs)"

definition transforms_or_identity :: "transforms \<Rightarrow> mat list" where
  "transforms_or_identity path_transforms =
     (if items path_transforms = [] then [eye3] else items path_transforms)"

definition has_truth_value :: "transforms \<Rightarrow> bool" where
  "has_truth_value path_transforms =
     (case path_transforms of TransformArray ts \<Rightarrow> ts = [] | _ \<Rightarrow> True)"

definition colors_or_none :: "color list \<Rightarrow> color list" where
  "colors_or_none cs = (if cs = [] then [ColStr ''none''] else cs)"

text \<open>A colour that \<open>color_to_hex\<close> converts without raising, and its hex string.\<close>

definition converts :: "(color \<Rightarrow> error + rgb) \<Rightarrow> color \<Rightarrow> bool" where
  "converts to_rgb c = (case color_to_hex to_rgb c of Inl e \<Rightarrow> False | Inr h \<Rightarrow> True)"

definition hex_of :: "(color \<Rightarrow> error + rgb) \<Rightarrow> color \<Rightarrow> string" where
  "hex_of to_rgb c = (case color_to_hex to_rgb c of Inl e \<Rightarrow> [] | Inr h \<Rightarrow> h)"

text \<open>The \<open>draw_path\<close> call one iteration of the loop of \<open>draw_path_collection\<close> makes.\<close>

definition element_call ::
  "(color \<Rightarrow> error + rgb) \<Rightarrow> (mat \<Rightarrow> point list \<Rightarrow> point list) \<Rightarrow> string \<Rightarrow> string \<Rightarrow>
   styles \<Rightarrow> 'obj option \<Rightarrow> (path \<times> mat \<times> point \<times> color \<times> pyval \<times> color) \<Rightarrow>
   'obj draw_path_call" where
  "element_call to_rgb affine pc oc st obj el =
     (case el of (p, t, off, ec, lw, fc) \<Rightarrow>
        \<lparr>data = affine t (fst p), coordinates = pc, pathcodes = snd p,
         style = [''edgecolor'' \<mapsto> PyStr (hex_of to_rgb ec),
                  ''facecolor'' \<mapsto> PyStr (hex_of to_rgb fc),
                  ''edgewidth'' \<mapsto> lw, ''dasharray'' \<mapsto> PyStr ''10,0'',
                  ''alpha'' \<mapsto> alpha st, ''zorder'' \<mapsto> zorder st],
         offset = Some off, offset_coordinates = oc, mplobj = obj\<rparr>)"

section \<open>Floats\<close>

text \<open>
  Rounding to the nearest float: a real within half a unit of an integer rounds to that
  integer, and rounding moves a real of the binade \<open>e\<close> by at most \<open>2^(e-53)\<close>.
\<close>

lemma round_even_near: "\<bar>x - of_int N\<bar> < 1 / 2 \<Longrightarrow> round_even x = N"
proof -
  assume a: "\<bar>x - of_int N\<bar> < 1 / 2"
  show ?thesis
  proof (cases "of_int N \<le> x")
    case True
    with a have "\<lfloor>x\<rfloor> = N" by (intro floor_unique) auto
    with a True show ?thesis by (simp add: round_even_def Let_def)
  next
    case False
    with a have f: "\<lfloor>x\<rfloor> = N - 1" by (intro floor_unique) auto
    with a False show ?thesis by (auto simp add: round_even_def Let_def)
  qed
qed

lemma round_even_err: "\<bar>of_int (round_even x) - x\<bar> \<le> 1 / 2"
proof -
  have "of_int \<lfloor>x\<rfloor> \<le> x" "x < of_int \<lfloor>x\<rfloor> + 1" by linarith+
  then show ?thesis
    by (auto simp add: round_even_def Let_def)
qed

lemma binade_eq:
  assumes "2 powi e \<le> \<bar>x\<bar>" "\<bar>x\<bar> < 2 powi (e + 1)" "- 1022 \<le> e"
  shows "binade x = e"
proof -
  define M :: nat where "M = 1074"
  define a where "a = nat (e + int M)"
  have b: "binade x = max (bitlen \<lfloor>\<bar>x\<bar> * 2 ^ M\<rfloor> - 1075) (- 1022)"
    by (simp only: binade_def M_def)
  have ea: "e + int M = int a" using assms(3) by (simp add: a_def M_def)
  have p1: "(2::real) powi e * 2 ^ M = 2 ^ a"
    using power_int_add [of "2::real" e "int M"] by (simp add: ea)
  have "(2::real) powi (e + 1) * 2 ^ M = 2 powi (int a + 1)"
    using power_int_add [of "2::real" "e + 1" "int M"] ea by (simp add: add.commute add.left_commute)
  also have "\<dots> = 2 ^ (a + 1)"
    using power_int_of_nat [of "2::real" "a + 1"] by (simp del: power_int_of_nat add: add.commute)
  finally have p2: "(2::real) powi (e + 1) * 2 ^ M = 2 ^ (a + 1)" .
  let ?k = "\<lfloor>\<bar>x\<bar> * 2 ^ M\<rfloor>"
  have "(2::real) powi e * 2 ^ M \<le> \<bar>x\<bar> * 2 ^ M"
    using assms(1) by (intro mult_right_mono) auto
  then have lo: "2 ^ a \<le> ?k"
    by (simp add: le_floor_iff p1)
  have "\<bar>x\<bar> * 2 ^ M < (2::real) powi (e + 1) * 2 ^ M"
    using assms(2) by (intro mult_strict_right_mono) auto
  then have hi: "?k < 2 ^ (a + 1)"
    by (simp add: floor_less_iff p2)
  have "bitlen (2 ^ a + (?k - 2 ^ a)) = int a + 1"
    using lo hi bitlen_twopow_add_eq [of "?k - 2 ^ a" a] by simp
  then have "bitlen ?k = int a + 1" by simp
  then show ?thesis
    using assms(3) ea unfolding b by (simp add: M_def)
qed

lemma to_double_near:
  assumes "2 powi e \<le> \<bar>x\<bar>" "\<bar>x\<bar> < 2 powi (e + 1)" "- 1022 \<le> e"
    and "\<bar>x / 2 powi (e - 52) - of_int N\<bar> < 1 / 2"
  shows "to_double x = of_int N * 2 powi (e - 52)"
  using round_even_near [OF assms(4)] binade_eq [OF assms(1-3)]
  by (simp add: to_double_def)

lemma to_double_err:
  assumes "2 powi e \<le> \<bar>x\<bar>" "\<bar>x\<bar> < 2 powi (e + 1)" "- 1022 \<le> e"
  shows "\<bar>to_double x - x\<bar> \<le> 2 powi (e - 53)"
proof -
  let ?q = "(2::real) powi (e - 52)"
  have q: "0 < ?q" by simp
  have "to_double x - x = (of_int (round_even (x / ?q)) - x / ?q) * ?q"
    using binade_eq [OF assms] q by (simp add: to_double_def field_simps)
  then have "\<bar>to_double x - x\<bar> = \<bar>of_int (round_even (x / ?q)) - x / ?q\<bar> * ?q"
    using q by (simp add: abs_mult)
  also have "\<dots> \<le> 1 / 2 * ?q"
    using round_even_err [of "x / ?q"] q by (intro mult_right_mono) auto
  also have "1 / 2 * ?q = 2 powi (e - 53)"
    using power_int_add [of "2::real" "e - 53" 1] by simp
  finally show ?thesis .
qed

text \<open>
  Dividing a byte by 255.0 and multiplying the quotient by 255.0 gives the byte back.
  Between two powers of two the two rounding errors stay below half a unit of the
  product; at a power of two \<open>2^k\<close> the quotient is \<open>2^k (1 - 2^-56) / 255\<close>, and the
  product \<open>2^k (1 - 2^-56)\<close> rounds up to \<open>2^k\<close>.
\<close>

lemma pow2_diff: "(2::real) powi (int k - int j) = 2 ^ k / 2 ^ j"
  using power_int_diff [of "2::real" "int k" "int j"] by simp

lemma between_bounds:
  fixes n k :: nat
  assumes "2 ^ k < n" "n < 2 * 2 ^ k" "n \<le> 254"
  shows "k \<le> 7" "(2::real) ^ k \<le> 128" "(2::real) ^ k + 1 \<le> real n" "real n + 1 \<le> 2 * 2 ^ k"
proof -
  show k7: "k \<le> 7"
  proof (rule ccontr)
    assume "\<not> k \<le> 7"
    then have "8 \<le> k" by simp
    then have "(2::nat) ^ 8 \<le> 2 ^ k" by (intro power_increasing) auto
    with assms(1,3) show False by simp
  qed
  then have "(2::real) ^ k \<le> 2 ^ 7" by (intro power_increasing) auto
  then show "(2::real) ^ k \<le> 128" by simp
  have "2 ^ k + 1 \<le> n" using assms(1) by simp
  then have "real (2 ^ k + 1) \<le> real n" by (simp only: of_nat_le_iff)
  then show "(2::real) ^ k + 1 \<le> real n" by simp
  have "n + 1 \<le> 2 * 2 ^ k" using assms(2) by simp
  then have "real (n + 1) \<le> real (2 * 2 ^ k)" by (simp only: of_nat_le_iff)
  then show "real n + 1 \<le> 2 * 2 ^ k" by simp
qed


lemma division_error:
  fixes n k :: nat
  assumes "2 ^ k \<le> n" "n < 2 * 2 ^ k" "n \<le> 254" "k \<le> 7"
  shows "\<bar>float_div (real n) 255 - real n / 255\<bar> \<le> 2 ^ k / 2 ^ 61"
proof -
  define P :: real where "P = 2 ^ k"
  have P0: "0 < P" by (simp add: P_def)
  have "(2::real) ^ k \<le> 2 ^ 7" using assms(4) by (intro power_increasing) auto
  then have P128: "P \<le> 128" by (simp add: P_def)
  have "real (2 ^ k) \<le> real n" using assms(1) by (simp only: of_nat_le_iff)
  then have lo: "P \<le> real n" by (simp add: P_def)
  have "n + 1 \<le> 2 * 2 ^ k" using assms(2) by simp
  then have "real (n + 1) \<le> real (2 * 2 ^ k)" by (simp only: of_nat_le_iff)
  then have hi: "real n + 1 \<le> 2 * P" by (simp add: P_def)
  have n254: "real n \<le> 254" using assms(3) by simp
  let ?x = "real n / 255"
  let ?e = "int k - 8"
  have e1: "(2::real) powi ?e = P / 2 ^ 8"
    using pow2_diff [of k 8] by (simp add: P_def)
  have e2: "(2::real) powi (?e + 1) = P / 2 ^ 7"
    using pow2_diff [of k 7] by (simp add: P_def)
  have e3: "(2::real) powi (?e - 53) = P / 2 ^ 61"
    using pow2_diff [of k 61] by (simp add: P_def)
  have "P * 255 \<le> real n * 256" using lo P0 by linarith
  then have x1: "2 powi ?e \<le> \<bar>?x\<bar>"
    unfolding e1 by (simp add: field_simps)
  have "real n * 128 < P * 255"
  proof (cases "k = 7")
    case True
    then have "P = 128" by (simp add: P_def)
    with n254 show ?thesis by simp
  next
    case False
    with assms(4) have "k \<le> 6" by simp
    then have "(2::real) ^ k \<le> 2 ^ 6" by (intro power_increasing) auto
    then have "P \<le> 64" by (simp add: P_def)
    with hi P0 show ?thesis by linarith
  qed
  then have x2: "\<bar>?x\<bar> < 2 powi (?e + 1)"
    unfolding e2 by (simp add: field_simps)
  have "- 1022 \<le> ?e" by simp
  from to_double_err [OF x1 x2 this] show ?thesis
    by (simp only: float_div_def e3 P_def)
qed


lemma byte_roundtrip_between:
  fixes n k :: nat
  assumes "2 ^ k < n" "n < 2 * 2 ^ k" "n \<le> 254"
  shows "float_mul 255 (float_div (real n) 255) = real n"
proof -
  define P :: real where "P = 2 ^ k"
  have P0: "0 < P" by (simp add: P_def)
  note b = between_bounds [OF assms]
  have k7: "k \<le> 7" by (rule b(1))
  have P128: "P \<le> 128" using b(2) by (simp add: P_def)
  have lo: "P + 1 \<le> real n" using b(3) by (simp add: P_def)
  have hi: "real n + 1 \<le> 2 * P" using b(4) by (simp add: P_def)
  define c where "c = float_div (real n) 255"
  have cerr: "\<bar>c - real n / 255\<bar> \<le> P / 2 ^ 61"
    using division_error [of k n] assms k7 by (simp add: c_def P_def)
  define y where "y = 255 * c"
  have am: "\<bar>255 * z\<bar> = 255 * \<bar>z\<bar>" for z :: real
    by (simp add: abs_mult)
  have "y - real n = 255 * (c - real n / 255)" by (simp add: y_def)
  then have "\<bar>y - real n\<bar> = 255 * \<bar>c - real n / 255\<bar>" by (simp only: am)
  with cerr have yerr: "\<bar>y - real n\<bar> \<le> 255 * P / 2 ^ 61" by simp
  have small: "255 * P / 2 ^ 61 < 1"
    using P128 by simp
  have ylo: "P \<le> y" and yhi: "y < 2 * P"
    using yerr small lo hi by linarith+
  have y1: "2 powi (int k) \<le> \<bar>y\<bar>"
    using ylo P0 by (simp add: P_def)
  have "(2::real) powi (int k + 1) = 2 * P"
    using power_int_add [of "2::real" "int k" 1] by (simp add: P_def)
  then have y2: "\<bar>y\<bar> < 2 powi (int k + 1)"
    using yhi ylo P0 by simp
  have q: "(2::real) powi (int k - 52) = P / 2 ^ 52"
    using pow2_diff [of k 52] by (simp add: P_def)
  define s where "s = 2 ^ 52 / P"
  have s0: "0 < s" using P0 by (simp add: s_def)
  have "(2::real) ^ (52 - k) = s"
    using k7 by (simp add: P_def s_def power_diff)
  then have Nint: "real_of_int (int n * 2 ^ (52 - k)) = real n * s"
    by simp
  have ys: "y / 2 powi (int k - 52) = y * s"
    unfolding q s_def by simp
  have as: "\<bar>z * s\<bar> = \<bar>z\<bar> * s" for z
    using s0 by (simp add: abs_mult)
  have "y * s - real n * s = (y - real n) * s"
    by (simp add: algebra_simps)
  then have "\<bar>y * s - real n * s\<bar> = \<bar>y - real n\<bar> * s"
    by (simp only: as)
  also have "\<dots> \<le> (255 * P / 2 ^ 61) * s"
    using yerr s0 by (intro mult_right_mono) auto
  also have "(255 * P / 2 ^ 61) * s = 255 / 512"
    using P0 by (simp add: s_def)
  finally have near: "\<bar>y / 2 powi (int k - 52) - real_of_int (int n * 2 ^ (52 - k))\<bar> < 1 / 2"
    unfolding ys Nint by simp
  have "- 1022 \<le> int k" by simp
  from to_double_near [OF y1 y2 this near]
  have "to_double y = real_of_int (int n * 2 ^ (52 - k)) * 2 powi (int k - 52)" .
  also have "\<dots> = real n"
    unfolding q Nint using P0 by (simp add: s_def)
  finally show ?thesis
    by (simp add: float_mul_def y_def c_def)
qed

lemma byte_roundtrip_power:
  fixes k :: nat
  assumes "k \<le> 7"
  shows "float_mul 255 (float_div (real (2 ^ k)) 255) = real (2 ^ k)"
proof -
  define P :: real where "P = 2 ^ k"
  have P0: "0 < P" by (simp add: P_def)
  have P1: "P \<noteq> 0" using P0 by simp
  have rp: "real (2 ^ k) = P" by (simp add: P_def)
  let ?x = "P / 255"
  let ?e = "int k - 8"
  have e1: "(2::real) powi ?e = P / 2 ^ 8"
    using pow2_diff [of k 8] by (simp add: P_def)
  have e2: "(2::real) powi (?e + 1) = P / 2 ^ 7"
    using pow2_diff [of k 7] by (simp add: P_def)
  have e3: "(2::real) powi (?e - 52) = P / 2 ^ 60"
    using pow2_diff [of k 60] by (simp add: P_def)
  have x1: "2 powi ?e \<le> \<bar>?x\<bar>"
    unfolding e1 using P0 by (simp add: field_simps)
  have x2: "\<bar>?x\<bar> < 2 powi (?e + 1)"
    unfolding e2 using P0 by (simp add: field_simps)
  have xs: "?x / (P / 2 ^ 60) = 2 ^ 60 / 255"
    using P1 by simp
  have n1: "\<bar>?x / 2 powi (?e - 52) - real_of_int 4521260802379792\<bar> < 1 / 2"
    unfolding e3 xs by simp
  have "- 1022 \<le> ?e" by simp
  from to_double_near [OF x1 x2 this n1]
  have "to_double ?x = real_of_int 4521260802379792 * 2 powi (?e - 52)" .
  then have c: "float_div P 255 = 4521260802379792 * (P / 2 ^ 60)"
    unfolding e3 by (simp add: float_div_def)
  define y where "y = 255 * float_div P 255"
  have y: "y = P * (1152921504606846960 / 2 ^ 60)"
    by (simp add: y_def c)
  let ?f = "int k - 1"
  have f1: "(2::real) powi ?f = P / 2"
    using pow2_diff [of k 1] by (simp add: P_def)
  have f2: "(2::real) powi (?f + 1) = P"
    by (simp add: P_def)
  have f3: "(2::real) powi (?f - 52) = P / 2 ^ 53"
    using pow2_diff [of k 53] by (simp add: P_def)
  have ypos: "0 \<le> y" using P0 by (simp add: y)
  have "P / 2 \<le> y" using P0 by (simp add: y)
  then have y1: "2 powi ?f \<le> \<bar>y\<bar>"
    unfolding f1 using ypos by simp
  have "y < P" using P0 by (simp add: y)
  then have y2: "\<bar>y\<bar> < 2 powi (?f + 1)"
    unfolding f2 using ypos by simp
  have ys: "y / (P / 2 ^ 53) = 1152921504606846960 / 2 ^ 7"
    using P1 by (simp add: y)
  have n2: "\<bar>y / 2 powi (?f - 52) - real_of_int 9007199254740992\<bar> < 1 / 2"
    unfolding f3 ys by simp
  have "- 1022 \<le> ?f" by simp
  from to_double_near [OF y1 y2 this n2]
  have "to_double y = real_of_int 9007199254740992 * 2 powi (?f - 52)" .
  then have "to_double y = P"
    unfolding f3 by simp
  then show ?thesis
    by (simp add: float_mul_def y_def P_def)
qed

lemma to_double_zero: "to_double 0 = 0"
  by (simp add: to_double_def round_even_def)

lemma to_double_one: "to_double 1 = 1"
proof -
  have "to_double 1 = real_of_int 4503599627370496 * 2 powi (0 - 52)"
    by (rule to_double_near) simp_all
  then show ?thesis
    by simp
qed

lemma to_double_255: "to_double 255 = 255"
proof -
  have "to_double 255 = real_of_int 8972014882652160 * 2 powi (7 - 52)"
    by (rule to_double_near) simp_all
  then show ?thesis
    by simp
qed

lemma byte_roundtrip_255: "float_mul 255 (float_div 255 255) = 255"
  by (simp add: float_mul_def float_div_def to_double_one to_double_255)

lemma byte_roundtrip:
  fixes n :: nat
  assumes "n \<le> 255"
  shows "float_mul 255 (float_div (real n) 255) = real n"
proof -
  consider "n = 0" | "n = 255" | "1 \<le> n" "n \<le> 254"
    using assms by linarith
  then show ?thesis
  proof cases
    case 1
    then show ?thesis by (simp add: float_mul_def float_div_def to_double_zero)
  next
    case 2
    then show ?thesis using byte_roundtrip_255 by simp
  next
    case 3
    from ex_power_ivl1 [of 2 n] 3(1) obtain k where k: "2 ^ k \<le> n" "n < 2 ^ (k + 1)"
      by auto
    show ?thesis
    proof (cases "n = 2 ^ k")
      case True
      have "k \<le> 7"
      proof (rule ccontr)
        assume "\<not> k \<le> 7"
        then have "8 \<le> k" by simp
        then have "(2::nat) ^ 8 \<le> 2 ^ k" by (intro power_increasing) auto
        with k(1) 3(2) show False by simp
      qed
      then show ?thesis
        unfolding True by (rule byte_roundtrip_power)
    next
      case False
      with k have "2 ^ k < n" "n < 2 * 2 ^ k" by simp_all
      then show ?thesis
        using 3(2) by (rule byte_roundtrip_between)
    qed
  qed
qed

section \<open>Colours\<close>

lemma hex_char_hex_val: "is_hex_char c \<Longrightarrow> hex_char (hex_val c) = c \<and> hex_val c < 16"
  by (auto simp: is_hex_char_def hex_char_def hex_val_def)

lemma fmt_02X_nat:
  "fmt_02X (int n) = (let ds = hex_digits n in if length ds < 2 then CHR ''0'' # ds else ds)"
  by (simp add: fmt_02X_def)

lemma fmt_02X_byte:
  assumes "a < 16" "b < 16"
  shows "fmt_02X (int (16 * a + b)) = [hex_char a, hex_char b]"
proof (cases "a = 0")
  case True
  with assms have "hex_digits (16 * a + b) = [hex_char b]"
    by (simp add: hex_digits.simps)
  with True show ?thesis
    by (simp add: fmt_02X_nat hex_char_def)
next
  case False
  with assms have "hex_digits (16 * a + b) = [hex_char a, hex_char b]"
    by (simp add: hex_digits.simps [of "16 * a + b"] hex_digits.simps [of a])
  then show ?thesis
    unfolding fmt_02X_nat by simp
qed

lemma py_int_byte: "n \<le> 255 \<Longrightarrow> py_int (real n) = Inr (int n)"
proof -
  assume "n \<le> 255"
  then have "real n \<le> 255" by simp
  moreover have "(255::real) < 2 ^ 1024" by simp
  ultimately have "\<not> 2 ^ 1024 \<le> \<bar>real n\<bar>" by simp
  then show ?thesis
    by (simp only: py_int_def if_False) simp
qed

lemma component_roundtrip:
  assumes "is_hex_char c" "is_hex_char d"
  shows "py_int (float_mul 255 (float_div (real (16 * hex_val c + hex_val d)) 255))
           = Inr (int (16 * hex_val c + hex_val d))"
    and "fmt_02X (int (16 * hex_val c + hex_val d)) = [c, d]"
proof -
  from assms have c: "hex_char (hex_val c) = c" "hex_val c < 16"
    and d: "hex_char (hex_val d) = d" "hex_val d < 16"
    using hex_char_hex_val by blast+
  then have n: "16 * hex_val c + hex_val d \<le> 255" by simp
  show "py_int (float_mul 255 (float_div (real (16 * hex_val c + hex_val d)) 255))
           = Inr (int (16 * hex_val c + hex_val d))"
    by (simp only: byte_roundtrip [OF n] py_int_byte [OF n])
  show "fmt_02X (int (16 * hex_val c + hex_val d)) = [c, d]"
    using c d by (simp only: fmt_02X_byte)
qed

lemma is_hex6_shape:
  assumes "is_hex6 s"
  obtains r1 r2 g1 g2 b1 b2 where "s = [CHR ''#'', r1, r2, g1, g2, b1, b2]"
    "is_hex_char r1" "is_hex_char r2" "is_hex_char g1" "is_hex_char g2"
    "is_hex_char b1" "is_hex_char b2"
  using assms by (cases s rule: is_hex6.cases) auto

lemma color_to_hex_fixed:
  assumes "is_hex6 s" "to_rgb (ColStr s) = Inr (hex2color s)"
  shows "color_to_hex to_rgb (ColStr s) = Inr s"
proof -
  from assms(1) obtain r1 r2 g1 g2 b1 b2 where s: "s = [CHR ''#'', r1, r2, g1, g2, b1, b2]"
    and h: "is_hex_char r1" "is_hex_char r2" "is_hex_char g1" "is_hex_char g2"
      "is_hex_char b1" "is_hex_char b2"
    by (rule is_hex6_shape)
  have rgb: "to_rgb (ColStr s) =
      Inr (float_div (real (16 * hex_val r1 + hex_val r2)) 255,
           float_div (real (16 * hex_val g1 + hex_val g2)) 255,
           float_div (real (16 * hex_val b1 + hex_val b2)) 255)"
    using assms(2) unfolding s by (simp only: hex2color.simps)
  have ns: "ColStr s \<notin> set [ColStr ''none'', ColStr ''None'', ColNone]"
    unfolding s by simp
  have "color_to_hex to_rgb (ColStr s) = Inr (''#'' @ concat [[r1, r2], [g1, g2], [b1, b2]])"
    unfolding color_to_hex_def using ns
    by (simp only: if_False rgb sum.case prod.case map_err.simps list.map
        component_roundtrip h)
  then show ?thesis
    by (simp add: s)
qed

text \<open>
  C8. \<open>color_to_hex\<close> maps \<open>'none'\<close>, \<open>'None'\<close> and \<open>None\<close> to \<open>'none'\<close>, whatever
  matplotlib's converter does. On a canonical colour string, that is \<open>#\<close> and six
  upper-case hex digits, which the converter reads as matplotlib does (each pair of
  digits divided by 255.0, in float arithmetic), it returns the string itself, so that
  applying it to its own result gives that result again.
\<close>

theorem color_to_hex_idempotent:
  "color_to_hex to_rgb (ColStr ''none'') = Inr ''none'' \<and>
   color_to_hex to_rgb (ColStr ''None'') = Inr ''none'' \<and>
   color_to_hex to_rgb ColNone = Inr ''none'' \<and>
   (is_hex6 s \<and> to_rgb (ColStr s) = Inr (hex2color s) \<longrightarrow>
      color_to_hex to_rgb (ColStr s) = Inr s \<and>
      (case color_to_hex to_rgb (ColStr s) of
         Inl e \<Rightarrow> Inl e
       | Inr h \<Rightarrow> color_to_hex to_rgb (ColStr h)) = color_to_hex to_rgb (ColStr s))"
  by (simp add: color_to_hex_fixed) (simp add: color_to_hex_def)

theorem color_to_hex_idempotent_witness:
  "color_to_hex hex_to_rgb (ColStr ''#0A00FF'') = Inr ''#0A00FF'' \<and>
   (case color_to_hex hex_to_rgb (ColStr ''#0A00FF'') of
      Inl e \<Rightarrow> Inl e
    | Inr h \<Rightarrow> color_to_hex hex_to_rgb (ColStr h))
     = color_to_hex hex_to_rgb (ColStr ''#0A00FF'') \<and>
   color_to_hex hex_to_rgb ColNone = Inr ''none''"
  using color_to_hex_idempotent [of hex_to_rgb "''#0A00FF''"]
  by (simp add: hex_to_rgb_def is_hex_char_def)

text \<open>
  The product in \<open>int(255 * c)\<close> is rounded to a float before \<open>int\<close> truncates it: at
  the float nearest to 1/255, which is \<open>282578800148737 / 2^56\<close> and lies below 1/255,
  the product rounds to 1.0 and the byte written is \<open>01\<close>.
\<close>

theorem color_to_hex_rounds_product:
  "color_to_hex (\<lambda>c. Inr (282578800148737 / 72057594037927936, 0, 1)) (ColTuple [])
     = Inr ''#0100FF''"
proof -
  let ?c = "282578800148737 / 72057594037927936 :: real"
  have "to_double (255 * ?c) = real_of_int 9007199254740992 * 2 powi (- 1 - 52)"
    by (rule to_double_near) simp_all
  then have r: "float_mul 255 ?c = 1"
    by (simp add: float_mul_def)
  have g: "float_mul 255 0 = 0"
    by (simp add: float_mul_def to_double_zero)
  have b: "float_mul 255 1 = 255"
    by (simp add: float_mul_def to_double_255)
  have i: "py_int 0 = Inr 0" "py_int 1 = Inr 1" "py_int 255 = Inr 255"
    using py_int_byte [of 0] py_int_byte [of 1] py_int_byte [of 255] by simp_all
  have f: "fmt_02X 0 = ''00''" "fmt_02X 1 = ''01''" "fmt_02X 255 = ''FF''"
    using fmt_02X_byte [of 0 0] fmt_02X_byte [of 0 1] fmt_02X_byte [of 15 15]
    by (simp_all add: hex_char_def)
  show ?thesis
    by (simp add: color_to_hex_def r g b i f)
qed

section \<open>Dash patterns\<close>

lemma LINESTYLES_eq:
  "LINESTYLES =
     [PyStr ''solid'' \<mapsto> ''10,0'', PyStr ''-'' \<mapsto> ''10,0'',
      PyTuple [PyNone, PyNone] \<mapsto> ''10,0'',
      PyStr ''dashed'' \<mapsto> ''6,6'', PyStr ''--'' \<mapsto> ''6,6'',
      PyStr ''dotted'' \<mapsto> ''2,2'', PyStr '':'' \<mapsto> ''2,2'',
      PyStr ''dashdot'' \<mapsto> ''4,4,2,4'', PyStr ''-.'' \<mapsto> ''4,4,2,4'',
      PyStr '''' \<mapsto> ''none'', PyStr '' '' \<mapsto> ''none'', PyStr ''None'' \<mapsto> ''none'',
      PyStr ''none'' \<mapsto> ''none'']"
  by (simp add: LINESTYLES_def many_to_one_def)

lemma LINESTYLES_hashable: "LINESTYLES ls = Some d \<Longrightarrow> hashable ls"
  by (auto simp: LINESTYLES_eq split: if_splits)

lemma get_dasharray_named:
  "dashSeq obj = None \<Longrightarrow> LINESTYLES (get_linestyle obj) = Some d \<Longrightarrow>
   get_dasharray str obj None = Inr d"
  by (simp add: get_dasharray_def dict_get_def LINESTYLES_hashable)

lemma get_dasharray_explicit:
  "dashSeq obj = Some seq \<Longrightarrow> get_dasharray str obj i = Inr (py_join '','' (map str seq))"
  by (simp add: get_dasharray_def)

text \<open>
  C2. An object with no dash sequence whose line style \<open>'foo'\<close> is not in \<open>LINESTYLES\<close>:
  \<open>get_dasharray\<close> reaches \<open>warnings.warn\<close>, and since utils.py never imports
  \<open>warnings\<close> the call raises \<open>NameError\<close>; no warning is emitted and \<open>"10,0"\<close> is not
  returned.
\<close>

theorem get_dasharray_unrecognized_raises:
  "get_dasharray str \<lparr>dashSeq = None, get_linestyle = PyStr ''foo''\<rparr> None
     = Inl (NameError ''warnings'')"
  by (simp add: get_dasharray_def dict_get_def LINESTYLES_eq)

text \<open>
  C6. The table of named styles maps solid to \<open>"10,0"\<close>, dashed to \<open>"6,6"\<close>, dotted to
  \<open>"2,2"\<close>, dashdot to \<open>"4,4,2,4"\<close> and each of \<open>''\<close>, \<open>' '\<close>, \<open>'None'\<close>, \<open>'none'\<close> to
  \<open>"none"\<close>; \<open>get_dasharray\<close> returns the table's entry for an object with no dash
  sequence whose style is in the table; and for an object with an explicit dash
  sequence it returns the numbers of the sequence joined with commas, whatever the
  object's named style is.
\<close>

theorem dash_pattern_mapping:
  "LINESTYLES (PyStr ''solid'') = Some ''10,0'' \<and>
   LINESTYLES (PyStr ''dashed'') = Some ''6,6'' \<and>
   LINESTYLES (PyStr ''dotted'') = Some ''2,2'' \<and>
   LINESTYLES (PyStr ''dashdot'') = Some ''4,4,2,4'' \<and>
   LINESTYLES (PyStr '''') = Some ''none'' \<and>
   LINESTYLES (PyStr '' '') = Some ''none'' \<and>
   LINESTYLES (PyStr ''None'') = Some ''none'' \<and>
   LINESTYLES (PyStr ''none'') = Some ''none'' \<and>
   (dashSeq obj = None \<and> LINESTYLES (get_linestyle obj) = Some d \<longrightarrow>
      get_dasharray str obj None = Inr d) \<and>
   (dashSeq obj = Some seq \<longrightarrow>
      get_dasharray str obj i = Inr (py_join '','' (map str seq)))"
  by (simp add: get_dasharray_named get_dasharray_explicit) (simp add: LINESTYLES_eq)

theorem dash_pattern_mapping_witness:
  "get_dasharray str_int \<lparr>dashSeq = Some [6, 2], get_linestyle = PyStr ''dotted''\<rparr> None
     = Inr ''6,2'' \<and>
   get_dasharray str_int \<lparr>dashSeq = None, get_linestyle = PyStr ''dotted''\<rparr> None
     = Inr ''2,2''"
  using dash_pattern_mapping [of "\<lparr>dashSeq = Some [6, 2], get_linestyle = PyStr ''dotted''\<rparr>"
      "''2,2''" str_int "[6, 2]" None]
    dash_pattern_mapping [of "\<lparr>dashSeq = None, get_linestyle = PyStr ''dotted''\<rparr>"
      "''2,2''" str_int "[]" None]
  by (simp add: str_int_def dec_digits.simps digit_char_def)

section \<open>The path codec\<close>

lemma map_err_segments:
  "list_all segment_ok segs \<Longrightarrow>
   map_err (\<lambda>(vertices, path_code).
              case PATH_DICT path_code of
                None \<Rightarrow> Inl (KeyError ''path_code'')
              | Some c \<Rightarrow> Inr (if path_code \<noteq> CLOSEPOLY then vertices else [], c)) segs
   = Inr (map encode_segment segs)"
proof (induction segs)
  case Nil
  then show ?case by simp
next
  case (Cons seg segs)
  obtain vs c where seg: "seg = (vs, c)" by (cases seg)
  from Cons.prems have "c \<noteq> STOP" by (simp add: seg)
  then have "PATH_DICT c \<noteq> None"
    by (cases c) (simp_all add: PATH_DICT_def)
  with Cons show ?case
    by (auto simp: seg encode_segment_def)
qed

lemma consumed_segment:
  "segment_ok seg \<Longrightarrow>
   2 * consumes (snd (encode_segment seg)) = length (fst (encode_segment seg))"
  by (cases seg; cases "snd seg") (auto simp: encode_segment_def PATH_DICT_def consumes_def)

lemma consumed_total:
  "list_all segment_ok segs \<Longrightarrow>
   2 * sum_list (map consumes (map snd (map encode_segment segs)))
     = length (concat (map fst (map encode_segment segs)))"
proof (induction segs)
  case Nil
  then show ?case by simp
next
  case (Cons seg segs)
  then show ?case
    using consumed_segment [of seg] by simp
qed

lemma reshape2_even:
  "even (length xs) \<Longrightarrow> \<exists>ps. reshape2 xs = Inr ps \<and> 2 * length ps = length xs"
  by (induction xs rule: reshape2.induct) auto

lemma drawing_command_consumes:
  "segment_ok seg \<Longrightarrow> snd (encode_segment seg) \<noteq> ''Z'' \<Longrightarrow>
   1 \<le> consumes (snd (encode_segment seg))"
  by (cases seg; cases "snd seg") (auto simp: encode_segment_def PATH_DICT_def consumes_def)

lemma drawing_commands_le_consumed:
  "list_all segment_ok segs \<Longrightarrow>
   length (filter (\<lambda>c. c \<noteq> ''Z'') (map snd (map encode_segment segs)))
     \<le> sum_list (map consumes (map snd (map encode_segment segs)))"
proof (induction segs)
  case Nil
  then show ?case by simp
next
  case (Cons seg segs)
  then show ?case
    using drawing_command_consumes [of seg] by auto
qed

text \<open>
  C7, as the code has it. When every segment that matplotlib's \<open>iter_segments\<close> yields
  carries the number of vertices of its code (two floats for each; no \<open>STOP\<close> segment),
  \<open>SVG_path\<close> returns, the vertices its commands consume (1 for \<open>M\<close> and \<open>L\<close>, 2 for \<open>S\<close>,
  3 for \<open>C\<close>, 0 for \<open>Z\<close>) are exactly the vertices of the returned array, and the
  commands other than \<open>Z\<close> are at most as many as the vertices.
\<close>

theorem SVG_path_consumed:
  assumes "list_all segment_ok
             (iter_segments (case transform of None \<Rightarrow> path | Some t \<Rightarrow> transformed path t)
                simplify)"
  shows "\<exists>vertices codes.
           SVG_path transformed iter_segments path transform simplify = Inr (vertices, codes) \<and>
           sum_list (map consumes codes) = length vertices \<and>
           length (filter (\<lambda>c. c \<noteq> ''Z'') codes) \<le> length vertices"
proof -
  define segs where
    "segs = iter_segments (case transform of None \<Rightarrow> path | Some t \<Rightarrow> transformed path t)
              simplify"
  have ok: "list_all segment_ok segs"
    using assms by (simp add: segs_def)
  let ?codes = "map snd (map encode_segment segs)"
  let ?flat = "concat (map fst (map encode_segment segs))"
  have total: "2 * sum_list (map consumes ?codes) = length ?flat"
    using ok by (rule consumed_total)
  then have "even (length ?flat)"
    by (metis dvd_triv_left)
  then obtain ps where ps: "reshape2 ?flat = Inr ps" "2 * length ps = length ?flat"
    using reshape2_even by blast
  have len: "sum_list (map consumes ?codes) = length ps"
    using total ps(2) by simp
  have le: "length (filter (\<lambda>c. c \<noteq> ''Z'') ?codes) \<le> length ps"
    using drawing_commands_le_consumed [OF ok] len by simp
  show ?thesis
  proof (cases "segs = []")
    case True
    then show ?thesis
      by (simp add: SVG_path_def segs_def [symmetric])
  next
    case False
    then have "SVG_path transformed iter_segments path transform simplify = Inr (ps, ?codes)"
      using map_err_segments [OF ok] ps(1)
      by (simp add: SVG_path_def segs_def [symmetric])
    with len le show ?thesis
      by blast
  qed
qed

theorem SVG_path_consumed_witness:
  "SVG_path (\<lambda>p (t::unit). p) (\<lambda>p s. p)
     [([0, 0], MOVETO), ([1, 0, 2, 1], CURVE3), ([1, 1, 2, 2, 3, 3], CURVE4),
      ([0, 0], CLOSEPOLY)] None False
   = Inr ([(0, 0), (1, 0), (2, 1), (1, 1), (2, 2), (3, 3)], [''M'', ''S'', ''C'', ''Z'']) \<and>
   sum_list (map consumes [''M'', ''S'', ''C'', ''Z''])
     = length [(0::real, 0::real), (1, 0), (2, 1), (1, 1), (2, 2), (3, 3)]"
  using SVG_path_consumed [where iter_segments = "\<lambda>p s. p" and transform = None
      and path = "[([0, 0], MOVETO), ([1, 0, 2, 1], CURVE3), ([1, 1, 2, 2, 3, 3], CURVE4),
                   ([0, 0], CLOSEPOLY)]"
      and transformed = "\<lambda>p (t::unit). p" and simplify = False]
  by (simp add: SVG_path_def PATH_DICT_def consumes_def)

text \<open>
  C7, as the claim states it, fails on a closed triangle: its segments are a move, two
  lines and a close, \<open>SVG_path\<close> returns three vertices and the four commands
  \<open>M L L Z\<close>, and four commands are more than three vertices.
\<close>

theorem SVG_path_more_commands_than_vertices:
  "SVG_path (\<lambda>p (t::unit). p) (\<lambda>p s. p)
     [([0, 0], MOVETO), ([1, 0], LINETO), ([1, 1], LINETO), ([0, 0], CLOSEPOLY)] None False
   = Inr ([(0, 0), (1, 0), (1, 1)], [''M'', ''L'', ''L'', ''Z'']) \<and>
   \<not> length [''M'', ''L'', ''L'', ''Z''] \<le> length [(0::real, 0::real), (1, 0), (1, 1)]"
  by (simp add: SVG_path_def PATH_DICT_def)

text \<open>
  C9. When \<open>iter_segments\<close> yields no segment for the path (transformed, when a
  transform is given), \<open>SVG_path\<close> returns the empty vertex array and the empty command
  list and raises nothing.
\<close>

theorem SVG_path_empty:
  assumes "iter_segments (case transform of None \<Rightarrow> path | Some t \<Rightarrow> transformed path t)
             simplify = []"
  shows "SVG_path transformed iter_segments path transform simplify = Inr ([], [])"
  using assms by (simp add: SVG_path_def)

theorem SVG_path_empty_witness:
  "SVG_path (\<lambda>p (t::unit). p) (\<lambda>p s. p) ([] :: segment list) (Some ()) True = Inr ([], [])"
  using SVG_path_empty [where iter_segments = "\<lambda>p s. p" and transform = "Some ()"
      and path = "[] :: segment list" and transformed = "\<lambda>p (t::unit). p" and simplify = True]
  by simp

section \<open>Grid queries\<close>

text \<open>
  C10. On an axes object, \<open>ax_has_xgrid\<close> is true exactly when the x axis has
  \<open>_gridOnMajor\<close> set and the grid line list of the y axis is not empty, and
  \<open>ax_has_ygrid\<close> exactly when the y axis has \<open>_gridOnMajor\<close> set and that same list is
  not empty; the grid lines of the x axis do not matter to \<open>ax_has_xgrid\<close>.
\<close>

theorem grid_queries_read_yaxis:
  "ax_has_xgrid (Some a) = (gridOnMajor (xaxis a) \<and> get_gridlines (yaxis a) \<noteq> []) \<and>
   ax_has_ygrid (Some a) = (gridOnMajor (yaxis a) \<and> get_gridlines (yaxis a) \<noteq> []) \<and>
   ax_has_xgrid (Some (a\<lparr>xaxis := (xaxis a)\<lparr>get_gridlines := g\<rparr>\<rparr>)) = ax_has_xgrid (Some a)"
  by (simp add: ax_has_xgrid_def ax_has_ygrid_def)

theorem grid_queries_read_yaxis_witness:
  "ax_has_xgrid (Some \<lparr>get_navigate = True,
       xaxis = \<lparr>gridOnMajor = True, get_gridlines = [1::nat, 2]\<rparr>,
       yaxis = \<lparr>gridOnMajor = False, get_gridlines = []\<rparr>\<rparr>) = False \<and>
   ax_has_ygrid (Some \<lparr>get_navigate = True,
       xaxis = \<lparr>gridOnMajor = False, get_gridlines = []\<rparr>,
       yaxis = \<lparr>gridOnMajor = True, get_gridlines = [1::nat]\<rparr>\<rparr>) = True"
  using grid_queries_read_yaxis [of "\<lparr>get_navigate = True,
       xaxis = \<lparr>gridOnMajor = True, get_gridlines = [1::nat, 2]\<rparr>,
       yaxis = \<lparr>gridOnMajor = False, get_gridlines = []\<rparr>\<rparr>" "[]"]
    grid_queries_read_yaxis [of "\<lparr>get_navigate = True,
       xaxis = \<lparr>gridOnMajor = False, get_gridlines = []\<rparr>,
       yaxis = \<lparr>gridOnMajor = True, get_gridlines = [1::nat]\<rparr>\<rparr>" "[]"]
  by simp

text \<open>
  The three queries are null-safe: on \<open>None\<close> each of \<open>ax_zoomable\<close>, \<open>ax_has_xgrid\<close>
  and \<open>ax_has_ygrid\<close> returns false.
\<close>

theorem queries_null_safe:
  "ax_zoomable None = False \<and> ax_has_xgrid None = False \<and> ax_has_ygrid None = False"
  by (simp add: ax_zoomable_def ax_has_xgrid_def ax_has_ygrid_def)

section \<open>Figure and axes scopes\<close>

lemma draw_figure_returns:
  "body (draw_figure_enter fig fp self) = (None, s1) \<Longrightarrow>
   draw_figure fig fp body self = (None, draw_figure_exit fig s1)"
  by (simp add: draw_figure_def)

lemma draw_figure_raises:
  "body (draw_figure_enter fig fp self) = (Some e, s1) \<Longrightarrow>
   draw_figure fig fp body self = (Some e, s1)"
  by (simp add: draw_figure_def)

lemma draw_axes_returns:
  "body (draw_axes_enter ax ap self) = (None, s1) \<Longrightarrow>
   draw_axes ax ap body self = (None, draw_axes_exit ax s1)"
  by (simp add: draw_axes_def)

lemma draw_axes_raises:
  "body (draw_axes_enter ax ap self) = (Some e, s1) \<Longrightarrow>
   draw_axes ax ap body self = (Some e, s1)"
  by (simp add: draw_axes_def)

lemma draw_figure_exit_fields:
  "current_fig (draw_figure_exit fig s) = IsNone"
  "current_ax (draw_figure_exit fig s) = current_ax s"
  "trace (draw_figure_exit fig s) = trace s @ [CloseFigure fig]"
  by (simp_all add: draw_figure_exit_def)

lemma draw_axes_exit_fields:
  "current_ax (draw_axes_exit ax s) = IsNone"
  "current_fig (draw_axes_exit ax s) = current_fig s"
  "trace (draw_axes_exit ax s) = trace s @ [CloseAxes ax]"
  by (simp_all add: draw_axes_exit_def)

text \<open>
  C1, as the code has it. When the work inside \<open>draw_figure\<close> returns, \<open>close_figure\<close>
  is called after it and the current figure is \<open>None\<close>; the same for \<open>draw_axes\<close>,
  \<open>close_axes\<close> and the current axes; after an axes scope inside a figure scope whose
  work returns, \<open>close_axes\<close> and \<open>close_figure\<close> have been called in this order and
  both references are \<open>None\<close>. When the work raises, the exception leaves both scopes
  with the renderer as the work left it: no close hook is called and no reference is
  reset.
\<close>

theorem scopes_release_on_return:
  "(body (draw_figure_enter fig fp self) = (None, s1) \<longrightarrow>
      draw_figure fig fp body self = (None, draw_figure_exit fig s1) \<and>
      current_fig (draw_figure_exit fig s1) = IsNone \<and>
      trace (draw_figure_exit fig s1) = trace s1 @ [CloseFigure fig]) \<and>
   (body' (draw_axes_enter ax ap self') = (None, s2) \<longrightarrow>
      draw_axes ax ap body' self' = (None, draw_axes_exit ax s2) \<and>
      current_ax (draw_axes_exit ax s2) = IsNone \<and>
      trace (draw_axes_exit ax s2) = trace s2 @ [CloseAxes ax]) \<and>
   (work (draw_axes_enter ax ap (draw_figure_enter fig fp self)) = (None, s3) \<longrightarrow>
      draw_figure fig fp (draw_axes ax ap work) self
        = (None, draw_figure_exit fig (draw_axes_exit ax s3)) \<and>
      current_fig (draw_figure_exit fig (draw_axes_exit ax s3)) = IsNone \<and>
      current_ax (draw_figure_exit fig (draw_axes_exit ax s3)) = IsNone \<and>
      trace (draw_figure_exit fig (draw_axes_exit ax s3))
        = trace s3 @ [CloseAxes ax, CloseFigure fig]) \<and>
   (work (draw_axes_enter ax ap (draw_figure_enter fig fp self)) = (Some e, s3) \<longrightarrow>
      draw_figure fig fp (draw_axes ax ap work) self = (Some e, s3))"
  by (simp add: draw_figure_returns draw_figure_raises draw_axes_returns draw_axes_raises
      draw_figure_exit_fields draw_axes_exit_fields)

theorem scopes_release_on_return_witness:
  "draw_figure (1::nat) Map.empty (draw_axes (2::nat) Map.empty (\<lambda>s. (None, s))) new_renderer
     = (None, \<lparr>current_fig = IsNone, fig_properties = Some Map.empty, current_ax = IsNone,
               ax_properties = Some Map.empty,
               trace = [OpenFigure 1 Map.empty, OpenAxes 2 Map.empty, CloseAxes 2,
                        CloseFigure 1]\<rparr>) \<and>
   draw_figure (1::nat) Map.empty (draw_axes (2::nat) Map.empty (\<lambda>s. (Some ValueError, s)))
       new_renderer
     = (Some ValueError,
        \<lparr>current_fig = Holds 1, fig_properties = Some Map.empty, current_ax = Holds 2,
         ax_properties = Some Map.empty,
         trace = [OpenFigure 1 Map.empty, OpenAxes 2 Map.empty]\<rparr>)"
proof -
  let ?inner = "draw_axes_enter (2::nat) Map.empty
                  (draw_figure_enter (1::nat) Map.empty new_renderer)"
  have returns: "draw_figure (1::nat) Map.empty (draw_axes (2::nat) Map.empty (\<lambda>s. (None, s)))
        new_renderer
      = (None, draw_figure_exit 1 (draw_axes_exit 2 ?inner))"
    using scopes_release_on_return [where work = "\<lambda>s. (None, s)" and fig = "1::nat"
        and fp = Map.empty and self = new_renderer and ax = "2::nat" and ap = Map.empty
        and ?s3.0 = ?inner
        and body = "\<lambda>s. (None, s)" and ?s1.0 = new_renderer
        and body' = "\<lambda>s. (None, s)" and self' = new_renderer and ?s2.0 = new_renderer]
    by blast
  have raises: "draw_figure (1::nat) Map.empty
        (draw_axes (2::nat) Map.empty (\<lambda>s. (Some ValueError, s))) new_renderer
      = (Some ValueError, ?inner)"
    using scopes_release_on_return [where work = "\<lambda>s. (Some ValueError, s)" and fig = "1::nat"
        and fp = Map.empty and self = new_renderer and ax = "2::nat" and ap = Map.empty
        and ?s3.0 = ?inner and e = ValueError
        and body = "\<lambda>s. (None, s)" and ?s1.0 = new_renderer
        and body' = "\<lambda>s. (None, s)" and self' = new_renderer and ?s2.0 = new_renderer]
    by blast
  show ?thesis
    unfolding returns raises
    by (simp add: draw_figure_enter_def draw_axes_enter_def draw_figure_exit_def
        draw_axes_exit_def new_renderer_def)
qed

text \<open>
  C1, as the claim states it, fails when the nested work raises: on a fresh renderer,
  with figure 1, axes 2 and work that raises \<open>ValueError\<close> at once, the exception leaves
  the two \<open>with\<close> statements, the current figure is still figure 1, the current axes
  are still axes 2, and the trace holds the two open hooks and no close hook.
\<close>

theorem scopes_keep_state_on_raise:
  "fst (draw_figure (1::nat) Map.empty
          (draw_axes (2::nat) Map.empty (\<lambda>s. (Some ValueError, s))) new_renderer)
     = Some ValueError \<and>
   current_fig (snd (draw_figure (1::nat) Map.empty
       (draw_axes (2::nat) Map.empty (\<lambda>s. (Some ValueError, s))) new_renderer)) = Holds 1 \<and>
   current_ax (snd (draw_figure (1::nat) Map.empty
       (draw_axes (2::nat) Map.empty (\<lambda>s. (Some ValueError, s))) new_renderer)) = Holds 2 \<and>
   trace (snd (draw_figure (1::nat) Map.empty
       (draw_axes (2::nat) Map.empty (\<lambda>s. (Some ValueError, s))) new_renderer))
     = [OpenFigure 1 Map.empty, OpenAxes 2 Map.empty]"
  by (simp add: draw_figure_def draw_axes_def draw_figure_enter_def draw_axes_enter_def
      new_renderer_def)

text \<open>
  Entering \<open>draw_axes\<close> while axes are current emits the warning, calls \<open>open_axes\<close>
  and makes the new axes current; the scope itself raises nothing, so the \<open>with\<close>
  statement ends as its body ends.
\<close>

theorem draw_axes_nested_warns:
  "(is_set (current_ax self) \<longrightarrow>
      trace (draw_axes_enter ax ap self)
        = trace self @ [Warn ''axes embedded in axes: something is wrong'', OpenAxes ax ap] \<and>
      current_ax (draw_axes_enter ax ap self) = Holds ax) \<and>
   fst (draw_axes ax ap body self) = fst (body (draw_axes_enter ax ap self))"
  by (simp add: draw_axes_enter_def draw_axes_def split: prod.splits option.splits)

theorem draw_axes_nested_warns_witness:
  "fst (draw_axes (1::nat) Map.empty (draw_axes (2::nat) Map.empty (\<lambda>s. (None, s)))
          (new_renderer :: (nat, nat) renderer)) = None \<and>
   trace (snd (draw_axes (1::nat) Map.empty (draw_axes (2::nat) Map.empty (\<lambda>s. (None, s)))
          (new_renderer :: (nat, nat) renderer)))
     = [OpenAxes 1 Map.empty, Warn ''axes embedded in axes: something is wrong'',
        OpenAxes 2 Map.empty, CloseAxes 2, CloseAxes 1]"
  using draw_axes_nested_warns [of "draw_axes_enter (1::nat) Map.empty
        (new_renderer :: (nat, nat) renderer)" "2::nat" Map.empty "\<lambda>s. (None, s)"]
  by (simp add: draw_axes_def draw_axes_enter_def draw_axes_exit_def new_renderer_def)

section \<open>Lines\<close>

text \<open>
  C5, as the code has it. For data of at least one point and a style with the keys
  \<open>color\<close> and \<open>linewidth\<close> and without the key \<open>facecolor\<close>, \<open>draw_line\<close> is exactly
  one call of \<open>draw_path\<close>: on the data unchanged, with the commands \<open>M\<close> and then one
  \<open>L\<close> for each further point, and with the style in which \<open>facecolor\<close> is \<open>'none'\<close>,
  \<open>edgecolor\<close> is the line's colour, \<open>edgewidth\<close> is the line's width, and the keys
  \<open>color\<close> and \<open>linewidth\<close> are gone.
\<close>

theorem draw_line_delegates:
  assumes "data_arg \<noteq> []" "style_arg ''color'' = Some c" "style_arg ''linewidth'' = Some w"
    "style_arg ''facecolor'' = None"
  shows "draw_line dp data_arg coordinates_arg style_arg mplobj_arg self =
           dp \<lparr>data = data_arg, coordinates = coordinates_arg,
               pathcodes = ''M'' # replicate (length data_arg - 1) ''L'',
               style = style_arg(''facecolor'' \<mapsto> PyStr ''none'', ''color'' := None,
                                 ''edgecolor'' \<mapsto> c, ''linewidth'' := None,
                                 ''edgewidth'' \<mapsto> w),
               offset = None, offset_coordinates = ''data'', mplobj = mplobj_arg\<rparr> self"
proof -
  have n: "nat (int (length data_arg) - 1) = length data_arg - 1"
    by simp
  have "py_repeat (int (length data_arg) - 1) [''L''] = replicate (length data_arg - 1) ''L''"
    unfolding py_repeat_def n by (induction "length data_arg - 1") simp_all
  with assms show ?thesis
    by (simp add: draw_line_def)
qed

theorem draw_line_delegates_witness:
  "fst (draw_line record_call [(0, 0), (1, 1), (2, 0)] ''data''
          [''color'' \<mapsto> PyStr ''#0000FF'', ''linewidth'' \<mapsto> PyNum 2] (None :: nat option) [])
     = None \<and>
   map pathcodes (snd (draw_line record_call [(0, 0), (1, 1), (2, 0)] ''data''
          [''color'' \<mapsto> PyStr ''#0000FF'', ''linewidth'' \<mapsto> PyNum 2] (None :: nat option) []))
     = [[''M'', ''L'', ''L'']] \<and>
   map data (snd (draw_line record_call [(0, 0), (1, 1), (2, 0)] ''data''
          [''color'' \<mapsto> PyStr ''#0000FF'', ''linewidth'' \<mapsto> PyNum 2] (None :: nat option) []))
     = [[(0, 0), (1, 1), (2, 0)]] \<and>
   map (\<lambda>call. (style call ''edgecolor'', style call ''facecolor'', style call ''edgewidth'',
                 style call ''color'', style call ''linewidth''))
     (snd (draw_line record_call [(0, 0), (1, 1), (2, 0)] ''data''
          [''color'' \<mapsto> PyStr ''#0000FF'', ''linewidth'' \<mapsto> PyNum 2] (None :: nat option) []))
     = [(Some (PyStr ''#0000FF''), Some (PyStr ''none''), Some (PyNum 2), None, None)]"
  using draw_line_delegates [of "[(0, 0), (1, 1), (2, 0)]"
      "[''color'' \<mapsto> PyStr ''#0000FF'', ''linewidth'' \<mapsto> PyNum 2]" "PyStr ''#0000FF''"
      "PyNum 2" record_call "''data''" "None :: nat option" "[]"]
  by (simp add: record_call_def)

text \<open>
  C5, as the claim states it, fails for a style that has the keys \<open>color\<close> and
  \<open>linewidth\<close> and also the key \<open>facecolor\<close>: \<open>dict(facecolor='none', **style)\<close> raises
  \<open>TypeError\<close> and no \<open>draw_path\<close> call is made.
\<close>

theorem draw_line_facecolor_clash:
  "draw_line record_call [(0, 0), (1, 1), (2, 0)] ''data''
     [''color'' \<mapsto> PyStr ''#0000FF'', ''linewidth'' \<mapsto> PyNum 2,
      ''facecolor'' \<mapsto> PyStr ''#FF0000'']
     (None :: nat option) [] = (Some TypeError, [])"
  by (simp add: draw_line_def)

section \<open>Path collections\<close>

text \<open>
  C4. With \<open>offset_order\<close> equal to \<open>"before"\<close>, \<open>draw_path_collection\<close> raises
  \<open>NotImplementedError\<close> whatever its other arguments and whatever \<open>draw_path\<close> is, and
  leaves the renderer as it was: no \<open>draw_path\<close> call has been made.
\<close>

theorem draw_path_collection_before_fails:
  "draw_path_collection dp to_rgb affine paths path_coordinates path_transforms offsets
     offset_coordinates_arg ''before'' styles_arg mplobj_arg self
   = (Some (NotImplementedError ''offset before transform''), self)"
  by (simp add: draw_path_collection_def)

theorem draw_path_collection_before_fails_witness:
  "draw_path_collection record_call hex_to_rgb (\<lambda>m vs. vs)
     [([(0, 0), (1, 1)], [''M'', ''L''])] ''data'' NoTransforms [(5, 5)] ''data'' ''before''
     \<lparr>edgecolor = [], facecolor = [], linewidth = [PyNum 1], alpha = PyNum 1,
       zorder = PyNum 1\<rparr> (None :: nat option) []
   = (Some (NotImplementedError ''offset before transform''), [])"
  using draw_path_collection_before_fails [of record_call hex_to_rgb "\<lambda>m vs. vs"
      "[([(0, 0), (1, 1)], [''M'', ''L''])]" "''data''" NoTransforms "[(5, 5)]" "''data''"
      "\<lparr>edgecolor = [], facecolor = [], linewidth = [PyNum 1], alpha = PyNum 1,
        zorder = PyNum 1\<rparr>" "None :: nat option" "[]"]
  by simp

lemma cycle_drop:
  "xs \<noteq> [] \<Longrightarrow> k \<le> length xs \<Longrightarrow>
   cycle n (drop k xs) xs = map (\<lambda>i. xs ! ((k + i) mod length xs)) [0..<n]"
proof (induction n arbitrary: k)
  case 0
  then show ?case by simp
next
  case (Suc n)
  show ?case
  proof (cases "k < length xs")
    case True
    then have d: "drop k xs = xs ! k # drop (Suc k) xs"
      by (simp add: Cons_nth_drop_Suc)
    have "cycle (Suc n) (drop k xs) xs = xs ! k # cycle n (drop (Suc k) xs) xs"
      by (simp add: d)
    also have "cycle n (drop (Suc k) xs) xs
        = map (\<lambda>i. xs ! ((Suc k + i) mod length xs)) [0..<n]"
      using Suc.IH [of "Suc k"] Suc.prems True by simp
    finally show ?thesis
      using True by (simp add: map_upt_Suc del: upt_Suc)
  next
    case False
    with Suc.prems have k: "k = length xs" by simp
    from Suc.prems obtain x xs' where xs: "xs = x # xs'"
      by (cases xs) auto
    have "cycle (Suc n) (drop k xs) xs = x # cycle n (drop 1 xs) xs"
      by (simp add: k xs)
    also have "cycle n (drop 1 xs) xs = map (\<lambda>i. xs ! ((1 + i) mod length xs)) [0..<n]"
      using Suc.IH [of 1] Suc.prems by (simp add: xs)
    finally have c: "cycle (Suc n) (drop k xs) xs
        = x # map (\<lambda>i. xs ! ((1 + i) mod length xs)) [0..<n]" .
    have m: "(k + Suc i) mod length xs = (1 + i) mod length xs" for i
      unfolding k by (metis Suc_eq_plus1_left mod_add_self1)
    have z: "xs ! ((k + 0) mod length xs) = x"
      by (simp add: k xs)
    show ?thesis
      unfolding c map_upt_Suc m z ..
  qed
qed

lemma cycle_cyclic: "xs \<noteq> [] \<Longrightarrow> cycle n xs xs = map (cyclic xs) [0..<n]"
  using cycle_drop [of xs 0 n] by (simp add: cyclic_def)

lemma izip_maps:
  "izip (map f1 ns) (map f2 ns) (map f3 ns) (map f4 ns) (map f5 ns) (map f6 ns)
     = map (\<lambda>i. (f1 i, f2 i, f3 i, f4 i, f5 i, f6 i)) ns"
  by (induction ns) simp_all

lemma converts_hex_of:
  "converts to_rgb c \<Longrightarrow> color_to_hex to_rgb c = Inr (hex_of to_rgb c)"
  by (simp add: converts_def hex_of_def split: sum.splits)

lemma converts_none: "converts to_rgb (ColStr ''none'')"
  by (simp add: converts_def color_to_hex_def)

lemma colors_or_none_convert:
  "list_all (converts to_rgb) cs \<Longrightarrow> list_all (converts to_rgb) (colors_or_none cs)"
  by (simp add: colors_or_none_def converts_none)

lemma colors_or_none_nonempty: "colors_or_none cs \<noteq> []"
  by (simp add: colors_or_none_def)

lemma transforms_or_identity_nonempty: "transforms_or_identity ts \<noteq> []"
  by (simp add: transforms_or_identity_def)

lemma py_not_items:
  "has_truth_value pts \<Longrightarrow> py_not pts = Inr (items pts = [])"
  by (cases pts) (simp_all add: has_truth_value_def)

lemma cyclic_in_set: "xs \<noteq> [] \<Longrightarrow> cyclic xs i \<in> set xs"
  by (simp add: cyclic_def)

lemma iter_path_collection_broadcast:
  assumes "paths \<noteq> []" "offsets \<noteq> []" "linewidth st \<noteq> []" "has_truth_value pts"
  shows "iter_path_collection paths pts offsets st =
           Inr (map (\<lambda>i. (cyclic paths i, cyclic (transforms_or_identity pts) i,
                          cyclic offsets i,
                          cyclic (colors_or_none (edgecolor st)) i, cyclic (linewidth st) i,
                          cyclic (colors_or_none (facecolor st)) i))
                  [0..<max (length paths) (length offsets)])"
proof -
  have "iter_path_collection paths pts offsets st =
      (let N = max (length paths) (length offsets)
       in Inr (izip (cycle N paths paths)
            (cycle N (transforms_or_identity pts) (transforms_or_identity pts))
            (cycle N offsets offsets)
            (cycle N (colors_or_none (edgecolor st)) (colors_or_none (edgecolor st)))
            (cycle N (linewidth st) (linewidth st))
            (cycle N (colors_or_none (facecolor st)) (colors_or_none (facecolor st)))))"
    by (simp add: iter_path_collection_def py_not_items [OF assms(4)]
        transforms_or_identity_def colors_or_none_def Let_def)
  then show ?thesis
    using assms(1-3)
    by (simp only: Let_def cycle_cyclic colors_or_none_nonempty transforms_or_identity_nonempty
        izip_maps not_False_eq_True)
qed

lemma draw_elements_record:
  assumes "\<forall>el \<in> set els. converts to_rgb (fst (snd (snd (snd el))))
                        \<and> converts to_rgb (snd (snd (snd (snd (snd el)))))"
  shows "draw_elements record_call to_rgb affine els pc oc st obj calls =
           (None, calls @ map (element_call to_rgb affine
                                 (if pc = ''figure'' then ''points'' else pc) oc st obj) els)"
  using assms
proof (induction els arbitrary: pc calls)
  case Nil
  then show ?case by simp
next
  case (Cons el els)
  obtain p t off ec lw fc where el: "el = (p, t, off, ec, lw, fc)"
    by (cases el) auto
  obtain vs cs where p: "p = (vs, cs)" by (cases p)
  from Cons.prems have ec: "color_to_hex to_rgb ec = Inr (hex_of to_rgb ec)"
    and fc: "color_to_hex to_rgb fc = Inr (hex_of to_rgb fc)"
    by (simp_all add: el converts_hex_of)
  from Cons.prems have rest: "\<forall>el \<in> set els. converts to_rgb (fst (snd (snd (snd el))))
                        \<and> converts to_rgb (snd (snd (snd (snd (snd el)))))"
    by simp
  let ?pc = "if pc = ''figure'' then ''points'' else pc"
  have step: "draw_elements record_call to_rgb affine (el # els) pc oc st obj calls =
      draw_elements record_call to_rgb affine els ?pc oc st obj
        (calls @ [element_call to_rgb affine ?pc oc st obj el])"
    unfolding el p
    by (simp add: ec fc record_call_def element_call_def Let_def)
  have idem: "(if ?pc = ''figure'' then ''points'' else ?pc) = ?pc"
    by simp
  show ?case
    unfolding step Cons.IH [OF rest] idem by simp
qed

text \<open>
  C3, as the code has it. With \<open>offset_order\<close> other than \<open>"before"\<close>, with paths,
  offsets and line widths that are not empty, colours that \<open>color_to_hex\<close> converts,
  and transforms that are \<open>None\<close>, a list or an array with no element,
  a renderer that records its \<open>draw_path\<close> calls receives exactly
  \<open>N = max(len(paths), len(offsets))\<close> calls, and call \<open>i\<close> carries the element at index
  \<open>i mod\<close> length of the paths, of the transforms, of the offsets, of the edge colours,
  of the line widths and of the face colours, an empty colour sequence being read as
  \<open>['none']\<close> and a missing or empty transform sequence as the identity alone.
\<close>

theorem draw_path_collection_broadcast:
  assumes "offset_order \<noteq> ''before''" and "paths \<noteq> []" and "offsets \<noteq> []"
    and "linewidth st \<noteq> []"
    and "list_all (converts to_rgb) (edgecolor st)"
    and "list_all (converts to_rgb) (facecolor st)"
    and "has_truth_value pts"
  shows "\<exists>new.
           draw_path_collection record_call to_rgb affine paths pc pts offsets oc offset_order
             st obj calls = (None, calls @ new) \<and>
           length new = max (length paths) (length offsets) \<and>
           (\<forall>i < max (length paths) (length offsets).
              data (new ! i)
                = affine (cyclic (transforms_or_identity pts) i) (fst (cyclic paths i)) \<and>
              pathcodes (new ! i) = snd (cyclic paths i) \<and>
              coordinates (new ! i) = (if pc = ''figure'' then ''points'' else pc) \<and>
              offset (new ! i) = Some (cyclic offsets i) \<and>
              offset_coordinates (new ! i) = oc \<and>
              mplobj (new ! i) = obj \<and>
              (\<exists>ech fch.
                 color_to_hex to_rgb (cyclic (colors_or_none (edgecolor st)) i) = Inr ech \<and>
                 color_to_hex to_rgb (cyclic (colors_or_none (facecolor st)) i) = Inr fch \<and>
                 style (new ! i) =
                   [''edgecolor'' \<mapsto> PyStr ech, ''facecolor'' \<mapsto> PyStr fch,
                    ''edgewidth'' \<mapsto> cyclic (linewidth st) i,
                    ''dasharray'' \<mapsto> PyStr ''10,0'',
                    ''alpha'' \<mapsto> alpha st, ''zorder'' \<mapsto> zorder st]))"
proof -
  let ?N = "max (length paths) (length offsets)"
  let ?pc = "if pc = ''figure'' then ''points'' else pc"
  let ?el = "\<lambda>i. (cyclic paths i, cyclic (transforms_or_identity pts) i, cyclic offsets i,
                   cyclic (colors_or_none (edgecolor st)) i, cyclic (linewidth st) i,
                   cyclic (colors_or_none (facecolor st)) i)"
  let ?new = "map (element_call to_rgb affine ?pc oc st obj) (map ?el [0..<?N])"
  have els: "iter_path_collection paths pts offsets st = Inr (map ?el [0..<?N])"
    using assms(2-4) assms(7) by (rule iter_path_collection_broadcast)
  have ec: "converts to_rgb (cyclic (colors_or_none (edgecolor st)) i)" for i
    using colors_or_none_convert [OF assms(5)]
      cyclic_in_set [OF colors_or_none_nonempty, of "edgecolor st" i]
    by (simp add: list_all_iff)
  have fc: "converts to_rgb (cyclic (colors_or_none (facecolor st)) i)" for i
    using colors_or_none_convert [OF assms(6)]
      cyclic_in_set [OF colors_or_none_nonempty, of "facecolor st" i]
    by (simp add: list_all_iff)
  have "\<forall>el \<in> set (map ?el [0..<?N]). converts to_rgb (fst (snd (snd (snd el))))
                        \<and> converts to_rgb (snd (snd (snd (snd (snd el)))))"
    using ec fc by simp
  then have run: "draw_path_collection record_call to_rgb affine paths pc pts offsets oc
      offset_order st obj calls = (None, calls @ ?new)"
    using assms(1)
    by (simp only: draw_path_collection_def els draw_elements_record if_False sum.case)
  have len: "length ?new = ?N"
    by simp
  have each: "data (?new ! i)
                = affine (cyclic (transforms_or_identity pts) i) (fst (cyclic paths i)) \<and>
              pathcodes (?new ! i) = snd (cyclic paths i) \<and>
              coordinates (?new ! i) = ?pc \<and>
              offset (?new ! i) = Some (cyclic offsets i) \<and>
              offset_coordinates (?new ! i) = oc \<and>
              mplobj (?new ! i) = obj \<and>
              (\<exists>ech fch.
                 color_to_hex to_rgb (cyclic (colors_or_none (edgecolor st)) i) = Inr ech \<and>
                 color_to_hex to_rgb (cyclic (colors_or_none (facecolor st)) i) = Inr fch \<and>
                 style (?new ! i) =
                   [''edgecolor'' \<mapsto> PyStr ech, ''facecolor'' \<mapsto> PyStr fch,
                    ''edgewidth'' \<mapsto> cyclic (linewidth st) i,
                    ''dasharray'' \<mapsto> PyStr ''10,0'',
                    ''alpha'' \<mapsto> alpha st, ''zorder'' \<mapsto> zorder st])" if "i < ?N" for i
    using that converts_hex_of [OF ec [of i]] converts_hex_of [OF fc [of i]]
    by (simp add: element_call_def)
  from run len each show ?thesis
    by blast
qed

theorem draw_path_collection_broadcast_witness:
  "fst (draw_path_collection record_call hex_to_rgb (\<lambda>m vs. vs)
       [([(0, 0)], [''M'']), ([(1, 1)], [''M'']), ([(2, 2)], [''M''])] ''figure'' NoTransforms
       [(10, 0), (11, 0), (12, 0), (13, 0), (14, 0)] ''data'' ''after''
       \<lparr>edgecolor = [], facecolor = [], linewidth = [PyNum 1, PyNum 2], alpha = PyNum 1,
         zorder = PyNum 3\<rparr> (None :: nat option) []) = None \<and>
   length (snd (draw_path_collection record_call hex_to_rgb (\<lambda>m vs. vs)
       [([(0, 0)], [''M'']), ([(1, 1)], [''M'']), ([(2, 2)], [''M''])] ''figure'' NoTransforms
       [(10, 0), (11, 0), (12, 0), (13, 0), (14, 0)] ''data'' ''after''
       \<lparr>edgecolor = [], facecolor = [], linewidth = [PyNum 1, PyNum 2], alpha = PyNum 1,
         zorder = PyNum 3\<rparr> (None :: nat option) [])) = 5 \<and>
   map data (snd (draw_path_collection record_call hex_to_rgb (\<lambda>m vs. vs)
       [([(0, 0)], [''M'']), ([(1, 1)], [''M'']), ([(2, 2)], [''M''])] ''figure'' NoTransforms
       [(10, 0), (11, 0), (12, 0), (13, 0), (14, 0)] ''data'' ''after''
       \<lparr>edgecolor = [], facecolor = [], linewidth = [PyNum 1, PyNum 2], alpha = PyNum 1,
         zorder = PyNum 3\<rparr> (None :: nat option) []))
     = [[(0, 0)], [(1, 1)], [(2, 2)], [(0, 0)], [(1, 1)]] \<and>
   map offset (snd (draw_path_collection record_call hex_to_rgb (\<lambda>m vs. vs)
       [([(0, 0)], [''M'']), ([(1, 1)], [''M'']), ([(2, 2)], [''M''])] ''figure'' NoTransforms
       [(10, 0), (11, 0), (12, 0), (13, 0), (14, 0)] ''data'' ''after''
       \<lparr>edgecolor = [], facecolor = [], linewidth = [PyNum 1, PyNum 2], alpha = PyNum 1,
         zorder = PyNum 3\<rparr> (None :: nat option) []))
     = [Some (10, 0), Some (11, 0), Some (12, 0), Some (13, 0), Some (14, 0)] \<and>
   map (\<lambda>c. (style c ''facecolor'', style c ''edgewidth''))
     (snd (draw_path_collection record_call hex_to_rgb (\<lambda>m vs. vs)
       [([(0, 0)], [''M'']), ([(1, 1)], [''M'']), ([(2, 2)], [''M''])] ''figure'' NoTransforms
       [(10, 0), (11, 0), (12, 0), (13, 0), (14, 0)] ''data'' ''after''
       \<lparr>edgecolor = [], facecolor = [], linewidth = [PyNum 1, PyNum 2], alpha = PyNum 1,
         zorder = PyNum 3\<rparr> (None :: nat option) []))
     = [(Some (PyStr ''none''), Some (PyNum 1)), (Some (PyStr ''none''), Some (PyNum 2)),
        (Some (PyStr ''none''), Some (PyNum 1)), (Some (PyStr ''none''), Some (PyNum 2)),
        (Some (PyStr ''none''), Some (PyNum 1))]"
proof -
  let ?st = "\<lparr>edgecolor = [], facecolor = [], linewidth = [PyNum 1, PyNum 2], alpha = PyNum 1,
         zorder = PyNum 3\<rparr>"
  let ?run = "draw_path_collection record_call hex_to_rgb (\<lambda>m vs. vs)
       [([(0, 0)], [''M'']), ([(1, 1)], [''M'']), ([(2, 2)], [''M''])] ''figure'' NoTransforms
       [(10, 0), (11, 0), (12, 0), (13, 0), (14, 0)] ''data'' ''after''
       ?st (None :: nat option) []"
  have "\<exists>new. ?run = (None, [] @ new) \<and>
      length new
        = max (length [([(0::real, 0::real)], [''M'']), ([(1, 1)], [''M'']), ([(2, 2)], [''M''])])
              (length [(10::real, 0::real), (11, 0), (12, 0), (13, 0), (14, 0)])"
    using draw_path_collection_broadcast [where offset_order = "''after''"
        and paths = "[([(0, 0)], [''M'']), ([(1, 1)], [''M'']), ([(2, 2)], [''M''])]"
        and offsets = "[(10, 0), (11, 0), (12, 0), (13, 0), (14, 0)]"
        and st = ?st and to_rgb = hex_to_rgb and affine = "\<lambda>m vs. vs" and pc = "''figure''"
        and pts = NoTransforms and oc = "''data''" and obj = "None :: nat option"
        and calls = "[]"]
    by (auto simp: has_truth_value_def)
  then have "fst ?run = None \<and> length (snd ?run) = 5"
    by auto
  moreover have "map data (snd ?run) = [[(0, 0)], [(1, 1)], [(2, 2)], [(0, 0)], [(1, 1)]]"
    by (simp add: draw_path_collection_def iter_path_collection_def eye3_def color_to_hex_def
        record_call_def Let_def)
  moreover have "map offset (snd ?run)
      = [Some (10, 0), Some (11, 0), Some (12, 0), Some (13, 0), Some (14, 0)]"
    by (simp add: draw_path_collection_def iter_path_collection_def eye3_def color_to_hex_def
        record_call_def Let_def)
  moreover have "map (\<lambda>c. (style c ''facecolor'', style c ''edgewidth'')) (snd ?run)
     = [(Some (PyStr ''none''), Some (PyNum 1)), (Some (PyStr ''none''), Some (PyNum 2)),
        (Some (PyStr ''none''), Some (PyNum 1)), (Some (PyStr ''none''), Some (PyNum 2)),
        (Some (PyStr ''none''), Some (PyNum 1))]"
    by (simp add: draw_path_collection_def iter_path_collection_def eye3_def color_to_hex_def
        record_call_def Let_def)
  ultimately show ?thesis
    by simp
qed

text \<open>
  C3, as the claim states it, fails when the offsets are empty: with one path and no
  offset \<open>N\<close> is 1, but the cycle over the empty offsets is exhausted at once, \<open>izip\<close>
  yields no tuple, and no \<open>draw_path\<close> call is made.
\<close>

theorem draw_path_collection_empty_offsets:
  "draw_path_collection record_call hex_to_rgb (\<lambda>m vs. vs)
          [([(0, 0), (1, 1)], [''M'', ''L''])] ''data'' NoTransforms [] ''data'' ''after''
          \<lparr>edgecolor = [], facecolor = [], linewidth = [PyNum 1], alpha = PyNum 1,
            zorder = PyNum 1\<rparr> (None :: nat option) [] = (None, []) \<and>
   max (length [([(0::real, 0::real), (1, 1)], [''M'', ''L''])]) (length ([] :: point list)) = 1"
  by (simp add: draw_path_collection_def iter_path_collection_def)

text \<open>
  A numpy array of one transform or more as \<open>path_transforms\<close>: \<open>not path_transforms\<close>
  raises \<open>ValueError\<close> in \<open>_iter_path_collection\<close>, before any \<open>draw_path\<close> call.
\<close>

theorem draw_path_collection_array_transforms:
  "offset_order \<noteq> ''before'' \<Longrightarrow> ts \<noteq> [] \<Longrightarrow>
   draw_path_collection dp to_rgb affine paths pc (TransformArray ts) offsets oc offset_order
     st obj self = (Some ValueError, self)"
  by (simp add: draw_path_collection_def iter_path_collection_def)

theorem draw_path_collection_array_transforms_witness:
  "draw_path_collection record_call hex_to_rgb (\<lambda>m vs. vs)
     [([(0, 0), (1, 1)], [''M'', ''L''])] ''data'' (TransformArray [eye3]) [(5, 5)] ''data''
     ''after''
     \<lparr>edgecolor = [], facecolor = [], linewidth = [PyNum 1], alpha = PyNum 1,
       zorder = PyNum 1\<rparr> (None :: nat option) [] = (Some ValueError, [])"
  using draw_path_collection_array_transforms [of "''after''" "[eye3]" record_call hex_to_rgb
      "\<lambda>m vs. vs" "[([(0, 0), (1, 1)], [''M'', ''L''])]" "''data''" "[(5, 5)]" "''data''"
      "\<lparr>edgecolor = [], facecolor = [], linewidth = [PyNum 1], alpha = PyNum 1,
        zorder = PyNum 1\<rparr>" "None :: nat option" "[]"]
  by (simp add: eye3_def)

end
